theory Spec2Isabelle
  imports Main "HOL-Library.Word"
begin

section \<open>The NTFS probe of libvolume\_id (udev-114, ntfs.c)\<close>

text \<open>
  A shallow embedding of \<^verbatim>\<open>volume_id_probe_ntfs\<close>. Buffers are byte lists, the C
  integer variables are words of their width, and behaviour that C leaves undefined
  (a read outside a buffer, a shift that does not fit \<^verbatim>\<open>int\<close>) is a value of
  its own, so that it is never confused with a normal return. The file-scope pointers
  \<^verbatim>\<open>ns\<close>, \<^verbatim>\<open>mftr\<close>, \<^verbatim>\<open>attr\<close> and \<^verbatim>\<open>info\<close> are assigned before
  every use and are modelled as locals; the \<^verbatim>\<open>info\<close> and \<^verbatim>\<open>dbg\<close> logging calls
  do not touch the result and are left out.
\<close>

subsection \<open>Machine integers, results, byte readers\<close>

type_synonym u8 = "8 word"
type_synonym u16 = "16 word"
type_synonym u32 = "32 word"
type_synonym u64 = "64 word"

datatype fault = Out_Of_Bounds | Shift_Undefined

datatype 'a res = Fault fault | Ok 'a

definition res_bind :: "'a res \<Rightarrow> ('a \<Rightarrow> 'b res) \<Rightarrow> 'b res" where
  "res_bind m f = (case m of Fault e \<Rightarrow> Fault e | Ok x \<Rightarrow> f x)"

text \<open>Reading \<open>n\<close> bytes at index \<open>i\<close> of a buffer; outside the buffer it is the fault.\<close>

definition rd_bytes :: "u8 list \<Rightarrow> nat \<Rightarrow> nat \<Rightarrow> u8 list res" where
  "rd_bytes buf i n = (if i + n \<le> length buf then Ok (take n (drop i buf)) else Fault Out_Of_Bounds)"

definition rd_u8 :: "u8 list \<Rightarrow> nat \<Rightarrow> u8 res" where
  "rd_u8 buf i = (if i < length buf then Ok (buf ! i) else Fault Out_Of_Bounds)"

text \<open>The value of a byte sequence read least significant byte first.\<close>

fun le_val :: "u8 list \<Rightarrow> nat" where
  "le_val [] = 0"
| "le_val (b # bs) = unat b + 256 * le_val bs"

text \<open>
  Modelled from the spec: \<^verbatim>\<open>le16_to_cpu\<close> is a macro of util.h, which is not among
  the sources. The on-disk layout is "little-endian throughout" and the host is taken to
  be little-endian, where the macro is the identity: a 16-bit field read through it is the
  little-endian value of its two bytes.
\<close>

definition rd_le16 :: "u8 list \<Rightarrow> nat \<Rightarrow> u16 res" where
  "rd_le16 buf i = res_bind (rd_bytes buf i 2) (\<lambda>bs. Ok (of_nat (le_val bs)))"

text \<open>
  Modelled from the spec: \<^verbatim>\<open>le32_to_cpu\<close> (util.h, not among the sources), the
  little-endian value of the four bytes of a 32-bit field.
\<close>

definition rd_le32 :: "u8 list \<Rightarrow> nat \<Rightarrow> u32 res" where
  "rd_le32 buf i = res_bind (rd_bytes buf i 4) (\<lambda>bs. Ok (of_nat (le_val bs)))"

text \<open>
  Modelled from the spec: \<^verbatim>\<open>le64_to_cpu\<close> (util.h, not among the sources), the
  little-endian value of the eight bytes of a 64-bit field.
\<close>

definition rd_le64 :: "u8 list \<Rightarrow> nat \<Rightarrow> u64 res" where
  "rd_le64 buf i = res_bind (rd_bytes buf i 8) (\<lambda>bs. Ok (of_nat (le_val bs)))"

text \<open>\<^verbatim>\<open>memcmp(p, s, n) != 0\<close> for the \<open>n = length s\<close> bytes at index \<open>i\<close>.\<close>

definition memcmp_ne :: "u8 list \<Rightarrow> nat \<Rightarrow> u8 list \<Rightarrow> bool res" where
  "memcmp_ne buf i s = res_bind (rd_bytes buf i (length s)) (\<lambda>bs. Ok (bs \<noteq> s))"

subsection \<open>The identity record and the collaborators of libvolume\_id\<close>

text \<open>
  Modelled from the spec: the usage enumeration of libvolume\_id.h, which is not among the
  sources; the spec names the classes filesystem, raid and crypto.
\<close>

datatype volume_id_usage = VOLUME_ID_FILESYSTEM | VOLUME_ID_RAID | VOLUME_ID_CRYPTO

text \<open>
  Modelled from the spec: \<^verbatim>\<open>struct volume_id\<close> is declared in libvolume\_id.h, which
  is not among the sources. The fields are those of the spec's Identity Result; a field that
  was never written is \<open>None\<close>.
\<close>

record volume_id =
  label_raw :: "u8 list option"
  label :: "u16 list option"
  uuid :: "u64 option"
  usage_id :: "volume_id_usage option"
  type :: "string option"
  type_version :: "string option"

text \<open>
  What ntfs.c takes from outside are parameters of the model: two sizes of
  libvolume\_id.h, \<^verbatim>\<open>VOLUME_ID_LABEL_SIZE\<close> and
  \<^verbatim>\<open>sizeof(id->type_version)\<close>, and the Buffer Source behind
  \<^verbatim>\<open>volume_id_get_buffer\<close>, a function from a request (offset, length) to
  the bytes it returns, if any.
\<close>

record libvolume_id_h =
  VOLUME_ID_LABEL_SIZE :: nat
  type_version_size :: nat

type_synonym request = "u64 \<times> nat"

type_synonym buffer_source = "u64 \<Rightarrow> nat \<Rightarrow> u8 list option"

text \<open>
  Modelled from the spec: \<^verbatim>\<open>volume_id_get_buffer\<close> (util.c, not among the
  sources) returns exactly \<open>len\<close> bytes or signals unavailable (NULL); a short read is
  unavailable.
\<close>

definition volume_id_get_buffer :: "buffer_source \<Rightarrow> u64 \<Rightarrow> nat \<Rightarrow> u8 list option" where
  "volume_id_get_buffer src off len =
     (case src off len of
        None \<Rightarrow> None
      | Some bs \<Rightarrow> if length bs = len then Some bs else None)"

text \<open>
  Modelled from the spec: \<^verbatim>\<open>volume_id_set_uuid\<close> (util.c, not among the sources),
  called with the format \<^verbatim>\<open>UUID_64BIT_LE\<close>, stores the 8 bytes as a
  little-endian 64-bit identifier.
\<close>

definition volume_id_set_uuid :: "volume_id \<Rightarrow> u8 list \<Rightarrow> volume_id" where
  "volume_id_set_uuid vid bs = vid\<lparr>uuid := Some (of_nat (le_val bs))\<rparr>"

text \<open>
  Modelled from the spec: \<^verbatim>\<open>volume_id_set_label_raw\<close> (util.c, not among the
  sources) copies the given bytes into \<open>label_raw\<close>.
\<close>

definition volume_id_set_label_raw :: "volume_id \<Rightarrow> u8 list \<Rightarrow> volume_id" where
  "volume_id_set_label_raw vid bs = vid\<lparr>label_raw := Some bs\<rparr>"

text \<open>
  Modelled from the spec: the bytes taken two by two as little-endian 16-bit code units; a
  last odd byte is no code unit.
\<close>

fun units16_le :: "u8 list \<Rightarrow> u16 list" where
  "units16_le (lo # hi # bs) = of_nat (le_val [lo, hi]) # units16_le bs"
| "units16_le _ = []"

text \<open>
  Modelled from the spec: \<^verbatim>\<open>volume_id_set_label_unicode16\<close> (util.c, not among the
  sources), called with \<^verbatim>\<open>LE\<close>, decodes the given bytes as little-endian 16-bit code
  units into \<open>label\<close>, the spec's \<open>label_text\<close>.
\<close>

definition volume_id_set_label_unicode16 :: "volume_id \<Rightarrow> u8 list \<Rightarrow> volume_id" where
  "volume_id_set_label_unicode16 vid bs = vid\<lparr>label := Some (units16_le bs)\<rparr>"

text \<open>
  Modelled from the spec: \<^verbatim>\<open>volume_id_set_usage\<close> (util.c, not among the sources)
  stores the usage class.
\<close>

definition volume_id_set_usage :: "volume_id \<Rightarrow> volume_id_usage \<Rightarrow> volume_id" where
  "volume_id_set_usage vid u = vid\<lparr>usage_id := Some u\<rparr>"

subsection \<open>Formatting the version\<close>

text \<open>The decimal digits of a number, as \<^verbatim>\<open>%u\<close> prints them.\<close>

fun dec :: "nat \<Rightarrow> string" where
  "dec n = (if n < 10 then [''0123456789'' ! n]
            else dec (n div 10) @ [''0123456789'' ! (n mod 10)])"

text \<open>
  \<^verbatim>\<open>snprintf(dst, n, "%u.%u", a, b)\<close>: with \<open>n = 0\<close> nothing is written;
  otherwise at most \<open>n - 1\<close> characters and the terminating NUL.
\<close>

definition snprintf_u_u :: "string option \<Rightarrow> nat \<Rightarrow> u8 \<Rightarrow> u8 \<Rightarrow> string option" where
  "snprintf_u_u dst n a b =
     (if n = 0 then dst else Some (take (n - 1) (dec (unat a) @ ''.'' @ dec (unat b))))"

subsection \<open>Constants of ntfs.c\<close>

definition MFT_RECORD_VOLUME :: u32 where "MFT_RECORD_VOLUME = 3"
definition MFT_RECORD_ATTR_VOLUME_NAME :: u32 where "MFT_RECORD_ATTR_VOLUME_NAME = 0x60"
definition MFT_RECORD_ATTR_VOLUME_INFO :: u32 where "MFT_RECORD_ATTR_VOLUME_INFO = 0x70"
definition MFT_RECORD_ATTR_END :: u32 where "MFT_RECORD_ATTR_END = 0xffffffff"

text \<open>The bytes of the string literals \<^verbatim>\<open>"NTFS"\<close> and \<^verbatim>\<open>"FILE"\<close>.\<close>

definition NTFS_magic :: "u8 list" where "NTFS_magic = [0x4E, 0x54, 0x46, 0x53]"
definition FILE_magic :: "u8 list" where "FILE_magic = [0x46, 0x49, 0x4C, 0x45]"

subsection \<open>Geometry (lines 121 to 132)\<close>

text \<open>
  Offsets in the packed \<^verbatim>\<open>struct ntfs_super_block\<close>: \<open>oem_id\<close> 3,
  \<open>bytes_per_sector\<close> 11, \<open>sectors_per_cluster\<close> 13, \<open>mft_cluster_location\<close> 48,
  \<open>cluster_per_mft_record\<close> 64, \<open>volume_serial\<close> 72.

  \<^verbatim>\<open>1 << n\<close> is an \<^verbatim>\<open>int\<close> shift: C defines it only while \<open>2 ^ n\<close> fits
  a 32-bit \<^verbatim>\<open>int\<close>, that is for \<open>n \<le> 30\<close>. The signed byte is promoted to
  \<^verbatim>\<open>int\<close> and converted to \<^verbatim>\<open>unsigned int\<close> for the product.
\<close>

definition mft_record_size_of :: "u8 \<Rightarrow> u32 \<Rightarrow> u32 res" where
  "mft_record_size_of cluster_per_mft_record cluster_size =
     (if sint cluster_per_mft_record < 0
      then (if nat (- sint cluster_per_mft_record) \<le> 30
            then Ok (push_bit (nat (- sint cluster_per_mft_record)) 1)
            else Fault Shift_Undefined)
      else Ok (scast cluster_per_mft_record * cluster_size))"

record geometry =
  sector_size :: u32
  cluster_size :: u32
  mft_cluster :: u64
  mft_off :: u64
  mft_record_size :: u32

definition ntfs_geometry :: "u8 list \<Rightarrow> geometry res" where
  "ntfs_geometry ns =
     res_bind (rd_le16 ns 11) (\<lambda>bytes_per_sector.
     res_bind (rd_u8 ns 13) (\<lambda>sectors_per_cluster.
     res_bind (rd_le64 ns 48) (\<lambda>mft_cluster_location.
     res_bind (rd_u8 ns 64) (\<lambda>cluster_per_mft_record.
       let ssz = ucast bytes_per_sector;
           csz = ucast sectors_per_cluster * ssz;
           moff = mft_cluster_location * ucast csz
       in res_bind (mft_record_size_of cluster_per_mft_record csz) (\<lambda>rsz.
            Ok \<lparr>sector_size = ssz, cluster_size = csz, mft_cluster = mft_cluster_location,
                mft_off = moff, mft_record_size = rsz\<rparr>)))))"

subsection \<open>The attribute walk (lines 159 to 200)\<close>

text \<open>
  Offsets in the packed \<^verbatim>\<open>struct file_attribute\<close>: \<open>type\<close> 0, \<open>len\<close> 4,
  \<open>value_len\<close> 16, \<open>value_offset\<close> 20; in \<^verbatim>\<open>struct volume_info\<close>:
  \<open>major_ver\<close> 8, \<open>minor_ver\<close> 9. One execution of the loop body either leaves the
  loop (\<open>Break\<close>) or goes round again with the advanced offset (\<open>Next\<close>).
\<close>

datatype loop = Break volume_id | Next u32 volume_id

text \<open>
  The four \<^verbatim>\<open>unsigned int\<close> locals the loop body loads from the attribute header
  at byte index \<open>attr\<close> (lines 161 to 164), in the order of the code. The field
  \<^verbatim>\<open>len\<close> is declared \<^verbatim>\<open>uint32_t\<close> (line 71) and nothing in ntfs.c narrows
  it: \<^verbatim>\<open>le16_to_cpu(attr->len)\<close>, the identity on a little-endian host, is the whole
  32-bit field, although the spec calls the total length a 16-bit value.
\<close>

record attr_header =
  attr_type :: u32
  attr_len :: u32
  val_off :: u32
  val_len :: u32

definition rd_attr :: "u8 list \<Rightarrow> nat \<Rightarrow> attr_header res" where
  "rd_attr buf attr =
     res_bind (rd_le32 buf attr) (\<lambda>type_field.
     res_bind (rd_le32 buf (attr + 4)) (\<lambda>len_field.
     res_bind (rd_le16 buf (attr + 20)) (\<lambda>value_offset.
     res_bind (rd_le32 buf (attr + 16)) (\<lambda>value_len.
       Ok \<lparr>attr_type = type_field, attr_len = len_field,
           val_off = ucast value_offset, val_len = value_len\<rparr>))))"

text \<open>Lines 182 to 187: \<open>info\<close> is the byte index \<open>attr + val_off\<close>.\<close>

definition volume_info_attr :: "libvolume_id_h \<Rightarrow> u8 list \<Rightarrow> nat \<Rightarrow> volume_id \<Rightarrow> volume_id res" where
  "volume_info_attr X buf info vid =
     res_bind (rd_u8 buf (info + 8)) (\<lambda>major_ver.
     res_bind (rd_u8 buf (info + 9)) (\<lambda>minor_ver.
       Ok (vid\<lparr>type_version :=
              snprintf_u_u (type_version vid) (type_version_size X - 1) major_ver minor_ver\<rparr>)))"

text \<open>Lines 189 to 199: \<open>val\<close> is the byte index \<open>attr + val_off\<close>.\<close>

definition volume_name_attr :: "libvolume_id_h \<Rightarrow> u8 list \<Rightarrow> nat \<Rightarrow> u32 \<Rightarrow> volume_id \<Rightarrow> volume_id res" where
  "volume_name_attr X buf val vlen vid =
     (let n = (if unat vlen > VOLUME_ID_LABEL_SIZE X then VOLUME_ID_LABEL_SIZE X
               else unat vlen)
      in res_bind (rd_bytes buf val n) (\<lambda>bs.
           Ok (volume_id_set_label_unicode16 (volume_id_set_label_raw vid bs) bs)))"

definition attr_step :: "libvolume_id_h \<Rightarrow> u8 list \<Rightarrow> u32 \<Rightarrow> u32 \<Rightarrow> volume_id \<Rightarrow> loop res" where
  "attr_step X buf rsz attr_off vid =
     (let attr = unat attr_off in
      res_bind (rd_attr buf attr) (\<lambda>h.
        let attr_off' = attr_off + attr_len h
        in if attr_len h = 0 then Ok (Break vid)
           else if attr_off' \<ge> rsz then Ok (Break vid)
           else if attr_type h = MFT_RECORD_ATTR_END then Ok (Break vid)
           else
             res_bind (if attr_type h = MFT_RECORD_ATTR_VOLUME_INFO
                       then volume_info_attr X buf (attr + unat (val_off h)) vid
                       else Ok vid) (\<lambda>vid1.
             res_bind (if attr_type h = MFT_RECORD_ATTR_VOLUME_NAME
                       then volume_name_attr X buf (attr + unat (val_off h)) (val_len h) vid1
                       else Ok vid1) (\<lambda>vid2.
               Ok (Next attr_off' vid2)))))"

text \<open>
  The loop \<^verbatim>\<open>while (1)\<close>: the walk is \<open>None\<close> if the loop never ends, otherwise
  the identity record at the \<^verbatim>\<open>break\<close>, or the fault.
\<close>

partial_function (option) attr_walk ::
  "libvolume_id_h \<Rightarrow> u8 list \<Rightarrow> u32 \<Rightarrow> u32 \<Rightarrow> volume_id \<Rightarrow> volume_id res option" where
  "attr_walk X buf rsz attr_off vid =
     (case attr_step X buf rsz attr_off vid of
        Fault e \<Rightarrow> Some (Fault e)
      | Ok (Break vid') \<Rightarrow> Some (Ok vid')
      | Ok (Next attr_off' vid') \<Rightarrow> attr_walk X buf rsz attr_off' vid')"

subsection \<open>The probe\<close>

text \<open>The label \<^verbatim>\<open>found:\<close> (lines 202 to 206).\<close>

definition found :: "volume_id \<Rightarrow> int \<times> volume_id" where
  "found vid = (0, (volume_id_set_usage vid VOLUME_ID_FILESYSTEM)\<lparr>type := Some ''ntfs''\<rparr>)"

text \<open>
  The probe returns the requests it sent to the Buffer Source, in order, and its outcome:
  the C return value with the identity record, or a fault. The whole is \<open>None\<close> if the
  walk does not end.
\<close>

definition probe_record ::
  "libvolume_id_h \<Rightarrow> u8 list \<Rightarrow> u32 \<Rightarrow> volume_id \<Rightarrow> (int \<times> volume_id) res option" where
  "probe_record X buf rsz vid =
     (case memcmp_ne buf 0 FILE_magic of
        Fault e \<Rightarrow> Some (Fault e)
      | Ok True \<Rightarrow> Some (Ok (found vid))
      | Ok False \<Rightarrow>
         (case rd_le16 buf 20 of
            Fault e \<Rightarrow> Some (Fault e)
          | Ok attrs_offset \<Rightarrow>
             (case attr_walk X buf rsz (ucast attrs_offset) vid of
                None \<Rightarrow> None
              | Some (Fault e) \<Rightarrow> Some (Fault e)
              | Some (Ok vid') \<Rightarrow> Some (Ok (found vid')))))"

text \<open>
  The offset of the volume record (line 141): \<open>off\<close> and \<open>mft_off\<close> are 64-bit, the
  product \<^verbatim>\<open>MFT_RECORD_VOLUME * mft_record_size\<close> is an \<^verbatim>\<open>unsigned int\<close>.
\<close>

definition volume_record_off :: "u64 \<Rightarrow> geometry \<Rightarrow> u64" where
  "volume_record_off off g = off + mft_off g + ucast (MFT_RECORD_VOLUME * mft_record_size g)"

definition volume_id_probe_ntfs ::
  "libvolume_id_h \<Rightarrow> buffer_source \<Rightarrow> volume_id \<Rightarrow> u64 \<Rightarrow> (request list \<times> (int \<times> volume_id) res) option" where
  "volume_id_probe_ntfs X src vid off =
     (case volume_id_get_buffer src off 0x200 of
        None \<Rightarrow> Some ([(off, 0x200)], Ok (- 1, vid))
      | Some ns \<Rightarrow>
         (case memcmp_ne ns 3 NTFS_magic of
            Fault e \<Rightarrow> Some ([(off, 0x200)], Fault e)
          | Ok True \<Rightarrow> Some ([(off, 0x200)], Ok (- 1, vid))
          | Ok False \<Rightarrow>
             (case rd_bytes ns 72 8 of
                Fault e \<Rightarrow> Some ([(off, 0x200)], Fault e)
              | Ok volume_serial \<Rightarrow>
                 (case ntfs_geometry ns of
                    Fault e \<Rightarrow> Some ([(off, 0x200)], Fault e)
                  | Ok g \<Rightarrow>
                     (let vid1 = volume_id_set_uuid vid volume_serial;
                          pos = volume_record_off off g;
                          sz = unat (mft_record_size g);
                          reqs = [(off, 0x200), (pos, sz)]
                      in case volume_id_get_buffer src pos sz of
                           None \<Rightarrow> Some (reqs, Ok (found vid1))
                         | Some buf \<Rightarrow>
                            (case probe_record X buf (mft_record_size g) vid1 of
                               None \<Rightarrow> None
                             | Some r \<Rightarrow> Some (reqs, r)))))))"

subsection \<open>Test vectors\<close>

text \<open>
  A 512-byte boot sector with the given name field, bytes per sector (two bytes), sectors
  per cluster, metadata table cluster (8 bytes), record size byte and serial (8 bytes), and
  a Buffer Source that answers exactly the listed requests.
\<close>

definition boot_sector :: "u8 list \<Rightarrow> u8 \<Rightarrow> u8 \<Rightarrow> u8 \<Rightarrow> u8 list \<Rightarrow> u8 \<Rightarrow> u8 list \<Rightarrow> u8 list" where
  "boot_sector oem_id bps_lo bps_hi spc mft size_byte serial =
     [0, 0, 0] @ oem_id @ [bps_lo, bps_hi, spc] @ replicate 34 0
     @ mft @ replicate 8 0 @ [size_byte] @ replicate 7 0 @ serial @ replicate 432 0"

definition source_of :: "(request \<times> u8 list) list \<Rightarrow> buffer_source" where
  "source_of l off len = map_of l (off, len)"

text \<open>
  A 128-byte volume record: the magic \<^verbatim>\<open>FILE\<close>, the first attribute at offset 32, a
  Volume-Info attribute (40 bytes, version 3.1), a Volume-Name attribute (32 bytes, the label
  DATA in 16-bit code units) and an end marker; an identity record with no field set; and
  sizes for the examples, a label of at most 64 bytes and a version field of 32.
\<close>

definition volume_record :: "u8 list" where
  "volume_record =
     FILE_magic @ replicate 16 0 @ [0x20, 0] @ replicate 10 0
     @ [0x70, 0, 0, 0, 0x28, 0, 0, 0] @ replicate 8 0 @ [0x0C, 0, 0, 0, 0x18, 0, 0, 0]
     @ replicate 8 0 @ [3, 1] @ replicate 6 0
     @ [0x60, 0, 0, 0, 0x20, 0, 0, 0] @ replicate 8 0 @ [8, 0, 0, 0, 0x18, 0, 0, 0]
     @ [0x44, 0, 0x41, 0, 0x54, 0, 0x41, 0]
     @ [0xFF, 0xFF, 0xFF, 0xFF] @ replicate 20 0"

definition unset_id :: volume_id where
  "unset_id = \<lparr>label_raw = None, label = None, uuid = None, usage_id = None, type = None,
            type_version = None\<rparr>"

definition sizes :: libvolume_id_h where
  "sizes = \<lparr>VOLUME_ID_LABEL_SIZE = 64, type_version_size = 32\<rparr>"


text \<open>
  Further records: a 64-byte record with an attribute header starting at offset 60 (the
  boundary case of the spec: its length field would lie at 64); a record whose Volume-Info
  attribute has value offset 200; a 64-byte record with an end marker at 0 and an attribute
  of length 24 at offset 40, so that the next offset is 64; a 64-byte record with an
  attribute of length 24 at offset 44, whose type and length lie in the record and whose
  value offset field would lie at 64; a 128-byte record with an attribute of type
  \<open>0x10\<close> and length 40 at offset 32 and one of length \<open>0xFFFFFFD8\<close> at offset 72; a
  record whose Volume-Name attribute declares 200 value bytes.
\<close>

definition truncated_attr_record :: "u8 list" where
  "truncated_attr_record = replicate 60 0 @ [0x60, 0, 0, 0]"

definition far_value_record :: "u8 list" where
  "far_value_record =
     FILE_magic @ replicate 16 0 @ [0x20, 0] @ replicate 10 0
     @ [0x70, 0, 0, 0, 0x28, 0, 0, 0] @ replicate 8 0 @ [0x0C, 0, 0, 0, 0xC8, 0]
     @ replicate 74 0"

definition boundary_record :: "u8 list" where
  "boundary_record =
     [0xFF, 0xFF, 0xFF, 0xFF, 8, 0, 0, 0] @ replicate 32 0
     @ [0x60, 0, 0, 0, 24, 0, 0, 0] @ replicate 16 0"

definition late_attr_record :: "u8 list" where
  "late_attr_record = replicate 44 0 @ [0x60, 0, 0, 0, 24, 0, 0, 0] @ replicate 12 0"

definition cycling_record :: "u8 list" where
  "cycling_record =
     FILE_magic @ replicate 16 0 @ [0x20, 0] @ replicate 10 0
     @ [0x10, 0, 0, 0, 0x28, 0, 0, 0] @ replicate 32 0
     @ [0x10, 0, 0, 0, 0xD8, 0xFF, 0xFF, 0xFF] @ replicate 48 0"

definition long_name_record :: "u8 list" where
  "long_name_record =
     FILE_magic @ replicate 16 0 @ [0x20, 0] @ replicate 10 0
     @ [0x60, 0, 0, 0, 0x58, 0, 0, 0] @ replicate 8 0 @ [0xC8, 0, 0, 0, 0x18, 0, 0, 0]
     @ replicate 64 0x41 @ replicate 8 0"

section \<open>Basic facts\<close>

lemma res_bind_Ok [simp]: "res_bind (Ok x) f = f x"
  by (simp add: res_bind_def)

lemma res_bind_Fault [simp]: "res_bind (Fault e) f = Fault e"
  by (simp add: res_bind_def)

lemma rd_bytes_in: "i + n \<le> length buf \<Longrightarrow> rd_bytes buf i n = Ok (take n (drop i buf))"
  by (simp add: rd_bytes_def)

lemma rd_u8_in: "i < length buf \<Longrightarrow> rd_u8 buf i = Ok (buf ! i)"
  by (simp add: rd_u8_def)

lemma unat_u8_lt: "unat (b :: u8) < 256"
  using unsigned_less [of b, where 'a = nat] by simp

lemma le_val_bound: "le_val bs < 256 ^ length bs"
proof (induction bs)
  case Nil
  show ?case by simp
next
  case (Cons b bs)
  have "unat b < 256" by (rule unat_u8_lt)
  with Cons show ?case by simp
qed

lemma unat_u16_lt: "unat (b :: u16) < 65536"
  using unsigned_less [of b, where 'a = nat] by simp

lemma unat_ucast_u8_u32: "unat (ucast (b :: u8) :: u32) = unat b"
  using unat_u8_lt [of b] by (simp add: unsigned_ucast_eq take_bit_nat_eq_self)

lemma unat_ucast_u16_u32: "unat (ucast (b :: u16) :: u32) = unat b"
  using unat_u16_lt [of b] by (simp add: unsigned_ucast_eq take_bit_nat_eq_self)

lemma unat_pow2_u32: 
  assumes "n < 32" shows "unat (2 ^ n :: u32) = 2 ^ n"
proof -
  have "(2::nat) ^ n < 2 ^ 32" using assms by (intro power_strict_increasing) simp_all
  moreover have "(2 ^ n :: u32) = of_nat (2 ^ n)" by simp
  ultimately show ?thesis by (simp only: unat_of_nat) simp
qed

lemma sint_u8_lt: "sint (b :: u8) < 128"
  using sint_lt [of b] by simp

lemma unat_scast_nonneg: 
  assumes "0 \<le> sint (b :: u8)" shows "unat (scast b :: u32) = nat (sint b)"
proof -
  have "sint b < 2 ^ 32" using sint_u8_lt [of b] by simp
  then have m: "sint b mod 2 ^ 32 = sint b" using assms by simp
  have "uint (scast b :: u32) = uint (word_of_int (sint b) :: u32)"
    by (simp only: scast_eq)
  also have "\<dots> = sint b mod 2 ^ 32"
    by (simp only: uint_word_of_int) simp
  finally have "uint (scast b :: u32) = sint b" using m by simp
  then show ?thesis by (simp only: unat_eq_nat_uint)
qed


lemma sint_u8_ge: "- 128 \<le> sint (b :: u8)"
  using sint_ge [of b] by simp

lemma mft_neg: "sint b < 0 \<Longrightarrow> nat (- sint b) \<le> 30 \<Longrightarrow>
   \<exists>rs. mft_record_size_of b cs = Ok rs \<and> unat rs = 2 ^ nat (- sint b)"
  by (simp add: mft_record_size_of_def unat_pow2_u32)

lemma mft_pos: 
  assumes "0 \<le> sint b" and "unat cs \<le> 255 * 65535"
  shows "\<exists>rs. mft_record_size_of b cs = Ok rs \<and> unat rs = nat (sint b) * unat cs"
proof -
  have b: "nat (sint b) \<le> 127" using sint_u8_lt [of b] by simp
  have "nat (sint b) * unat cs \<le> 127 * (255 * 65535)"
    using b assms(2) by (rule mult_le_mono)
  then have "unat (scast b :: u32) * unat cs < 2 ^ LENGTH(32)"
    using assms(1) by (simp add: unat_scast_nonneg)
  then have "unat (scast b * cs) = unat (scast b :: u32) * unat cs"
    by (simp only: unat_mult_lem)
  then show ?thesis using assms(1)
    by (simp add: mft_record_size_of_def unat_scast_nonneg)
qed

lemma cluster_size_bound:
  "unat (ucast (spc :: u8) * (ucast (bps :: u16) :: u32)) = unat spc * unat bps
   \<and> unat spc * unat bps \<le> 255 * 65535"
proof -
  have a: "unat spc \<le> 255" using unat_u8_lt [of spc] by simp
  have b: "unat bps \<le> 65535" using unat_u16_lt [of bps] by simp
  have le: "unat spc * unat bps \<le> 255 * 65535" using a b by (rule mult_le_mono)
  then have "unat (ucast spc :: u32) * unat (ucast bps :: u32) < 2 ^ LENGTH(32)"
    by (simp add: unat_ucast_u8_u32 unat_ucast_u16_u32)
  then have "unat (ucast spc * (ucast bps :: u32)) = unat (ucast spc :: u32) * unat (ucast bps :: u32)"
    by (simp only: unat_mult_lem)
  then show ?thesis using le by (simp add: unat_ucast_u8_u32 unat_ucast_u16_u32)
qed

lemma ntfs_geometry_512:
  assumes "length ns = 0x200"
  shows "ntfs_geometry ns =
    res_bind (mft_record_size_of (ns ! 64)
                (ucast (ns ! 13) * ucast (of_nat (le_val (take 2 (drop 11 ns))) :: u16)))
      (\<lambda>rsz. Ok \<lparr>sector_size = ucast (of_nat (le_val (take 2 (drop 11 ns))) :: u16),
                 cluster_size = ucast (ns ! 13) * ucast (of_nat (le_val (take 2 (drop 11 ns))) :: u16),
                 mft_cluster = of_nat (le_val (take 8 (drop 48 ns))),
                 mft_off = of_nat (le_val (take 8 (drop 48 ns)))
                   * ucast (ucast (ns ! 13) * (ucast (of_nat (le_val (take 2 (drop 11 ns))) :: u16) :: u32)),
                 mft_record_size = rsz\<rparr>)"
  using assms
  by (simp add: ntfs_geometry_def rd_le16_def rd_le64_def rd_bytes_in rd_u8_in Let_def)

lemma boot_sector_facts [simp]:
  assumes "length oem = 8" and "length mft = 8" and "length serial = 8"
  shows "length (boot_sector oem lo hi spc mft sb serial) = 512"
    and "boot_sector oem lo hi spc mft sb serial ! 13 = spc"
    and "boot_sector oem lo hi spc mft sb serial ! 64 = sb"
    and "take 2 (drop 11 (boot_sector oem lo hi spc mft sb serial)) = [lo, hi]"
    and "take 4 (drop 3 (boot_sector oem lo hi spc mft sb serial)) = take 4 oem"
    and "take 8 (drop 48 (boot_sector oem lo hi spc mft sb serial)) = mft"
    and "take 8 (drop 72 (boot_sector oem lo hi spc mft sb serial)) = serial"
  using assms by (simp_all add: boot_sector_def nth_append)

section \<open>The attribute walk\<close>

subsection \<open>Header reads and progress\<close>

lemma rd_attr_out: "length buf < a + 22 \<Longrightarrow> rd_attr buf a = Fault Out_Of_Bounds"
  by (simp add: rd_attr_def rd_le32_def rd_le16_def rd_bytes_def)

lemma rd_attr_in:
  "a + 22 \<le> length buf \<Longrightarrow>
   rd_attr buf a =
     Ok \<lparr>attr_type = of_nat (le_val (take 4 (drop a buf))),
         attr_len = of_nat (le_val (take 4 (drop (a + 4) buf))),
         val_off = ucast (of_nat (le_val (take 2 (drop (a + 20) buf))) :: u16),
         val_len = of_nat (le_val (take 4 (drop (a + 16) buf)))\<rparr>"
  by (simp add: rd_attr_def rd_le32_def rd_le16_def rd_bytes_in)

lemma attr_step_Fault: "attr_step X buf rsz off vid = Fault e \<Longrightarrow> e = Out_Of_Bounds"
  by (auto simp: attr_step_def Let_def res_bind_def rd_attr_def rd_le32_def rd_le16_def
        rd_bytes_def rd_u8_def volume_info_attr_def volume_name_attr_def
      split: res.splits if_splits)

lemma attr_step_NextD:
  assumes "attr_step X buf rsz off vid = Ok (Next off' vid')"
  shows "\<exists>h. rd_attr buf (unat off) = Ok h \<and> attr_len h \<noteq> 0 \<and> off' = off + attr_len h \<and> off' < rsz"
  using assms
  by (auto simp: attr_step_def Let_def res_bind_def split: res.splits if_splits)

subsection \<open>The walk on the test vectors\<close>

lemma volume_record_length: "length volume_record = 128"
  by (simp add: volume_record_def FILE_magic_def)

lemma volume_record_attr_32: "rd_attr volume_record 32 = Ok \<lparr>attr_type = 0x70, attr_len = 40, val_off = 24, val_len = 12\<rparr>"
  by (simp add: rd_attr_in volume_record_length) (simp add: volume_record_def FILE_magic_def)

lemma le_val_zeros [simp]: "le_val (replicate n 0) = 0"
  by (induction n) simp_all

lemma volume_record_step_32: "attr_step sizes volume_record 128 32 vid = Ok (Next 72 (vid\<lparr>type_version := Some ''3.1''\<rparr>))"
  by (simp add: attr_step_def volume_record_attr_32 Let_def MFT_RECORD_ATTR_END_def MFT_RECORD_ATTR_VOLUME_INFO_def 
       MFT_RECORD_ATTR_VOLUME_NAME_def volume_info_attr_def rd_u8_def volume_record_length)
     (simp add: volume_record_def FILE_magic_def nth_append snprintf_u_u_def sizes_def)


lemma volume_record_attr_104: "rd_attr volume_record 104 = Ok \<lparr>attr_type = 0xFFFFFFFF, attr_len = 0, val_off = 0, val_len = 0\<rparr>"
  by (simp add: rd_attr_in volume_record_length) (simp add: volume_record_def FILE_magic_def)






subsection \<open>The loop body case by case\<close>

lemma attr_step_breaks:
  assumes "rd_attr buf (unat attr_off) = Ok h"
    and "attr_len h = 0 \<or> rsz \<le> attr_off + attr_len h \<or> attr_type h = MFT_RECORD_ATTR_END"
  shows "attr_step X buf rsz attr_off vid = Ok (Break vid)"
  using assms by (auto simp: attr_step_def Let_def)

lemma attr_walk_breaks:
  assumes "attr_step X buf rsz attr_off vid = Ok (Break vid')"
  shows "attr_walk X buf rsz attr_off vid = Some (Ok vid')"
  using assms by (subst attr_walk.simps) simp

lemma attr_step_goes_on:
  assumes "rd_attr buf (unat attr_off) = Ok h"
    and "attr_len h \<noteq> 0" and "attr_off + attr_len h < rsz"
    and "attr_type h \<noteq> MFT_RECORD_ATTR_END"
  shows "attr_step X buf rsz attr_off vid =
     res_bind (if attr_type h = MFT_RECORD_ATTR_VOLUME_INFO
               then volume_info_attr X buf (unat attr_off + unat (val_off h)) vid
               else Ok vid) (\<lambda>vid1.
     res_bind (if attr_type h = MFT_RECORD_ATTR_VOLUME_NAME
               then volume_name_attr X buf (unat attr_off + unat (val_off h)) (val_len h) vid1
               else Ok vid1) (\<lambda>vid2.
       Ok (Next (attr_off + attr_len h) vid2)))"
  using assms by (simp add: attr_step_def Let_def not_le [symmetric])

lemma volume_info_attr_fault:
  "volume_info_attr X buf i vid = Fault Out_Of_Bounds \<longleftrightarrow> length buf < i + 10"
  by (auto simp: volume_info_attr_def rd_u8_def)

lemma volume_name_attr_fault:
  "volume_name_attr X buf i vlen vid = Fault Out_Of_Bounds
     \<longleftrightarrow> length buf < i + min (unat vlen) (VOLUME_ID_LABEL_SIZE X)"
  by (auto simp: volume_name_attr_def rd_bytes_def Let_def min_def)

lemma volume_name_attr_not_info:
  "MFT_RECORD_ATTR_VOLUME_NAME \<noteq> MFT_RECORD_ATTR_VOLUME_INFO"
  by (simp add: MFT_RECORD_ATTR_VOLUME_NAME_def MFT_RECORD_ATTR_VOLUME_INFO_def)

subsection \<open>Further test vectors\<close>

lemma truncated_attr_record_length: "length truncated_attr_record = 64"
  by (simp add: truncated_attr_record_def)

lemma far_value_record_facts:
  "length far_value_record = 128"
  "rd_attr far_value_record 32 = Ok \<lparr>attr_type = 0x70, attr_len = 40, val_off = 200, val_len = 12\<rparr>"
proof -
  show l: "length far_value_record = 128" by (simp add: far_value_record_def FILE_magic_def)
  show "rd_attr far_value_record 32 = Ok \<lparr>attr_type = 0x70, attr_len = 40, val_off = 200, val_len = 12\<rparr>"
    by (simp add: rd_attr_in l) (simp add: far_value_record_def FILE_magic_def)
qed

lemma boundary_record_facts:
  "length boundary_record = 64"
  "rd_attr boundary_record 0 = Ok \<lparr>attr_type = 0xFFFFFFFF, attr_len = 8, val_off = 0, val_len = 0\<rparr>"
  "rd_attr boundary_record 40 = Ok \<lparr>attr_type = 0x60, attr_len = 24, val_off = 0, val_len = 0\<rparr>"
proof -
  show l: "length boundary_record = 64" by (simp add: boundary_record_def)
  show "rd_attr boundary_record 0 = Ok \<lparr>attr_type = 0xFFFFFFFF, attr_len = 8, val_off = 0, val_len = 0\<rparr>"
    by (simp add: rd_attr_in l) (simp add: boundary_record_def)
  show "rd_attr boundary_record 40 = Ok \<lparr>attr_type = 0x60, attr_len = 24, val_off = 0, val_len = 0\<rparr>"
    by (simp add: rd_attr_in l) (simp add: boundary_record_def)
qed

lemma late_attr_record_facts:
  "length late_attr_record = 64"
  "rd_le32 late_attr_record 44 = Ok 0x60"
  "rd_le32 late_attr_record 48 = Ok 24"
  "rd_attr late_attr_record 44 = Fault Out_Of_Bounds"
proof -
  show l: "length late_attr_record = 64" by (simp add: late_attr_record_def)
  show "rd_le32 late_attr_record 44 = Ok 0x60"
    by (simp add: rd_le32_def rd_bytes_in l) (simp add: late_attr_record_def)
  show "rd_le32 late_attr_record 48 = Ok 24"
    by (simp add: rd_le32_def rd_bytes_in l) (simp add: late_attr_record_def)
  show "rd_attr late_attr_record 44 = Fault Out_Of_Bounds"
    by (simp add: rd_attr_out l)
qed

lemma cycling_record_facts:
  "length cycling_record = 128"
  "take 4 cycling_record = FILE_magic"
  "take 2 (drop 20 cycling_record) = [0x20, 0]"
  "rd_attr cycling_record 32 = Ok \<lparr>attr_type = 0x10, attr_len = 40, val_off = 0, val_len = 0\<rparr>"
  "rd_attr cycling_record 72 = Ok \<lparr>attr_type = 0x10, attr_len = 0xFFFFFFD8, val_off = 0, val_len = 0\<rparr>"
proof -
  show l: "length cycling_record = 128" by (simp add: cycling_record_def FILE_magic_def)
  show "take 4 cycling_record = FILE_magic" by (simp add: cycling_record_def FILE_magic_def)
  show "take 2 (drop 20 cycling_record) = [0x20, 0]"
    by (simp add: cycling_record_def FILE_magic_def)
  show "rd_attr cycling_record 32 = Ok \<lparr>attr_type = 0x10, attr_len = 40, val_off = 0, val_len = 0\<rparr>"
    by (simp add: rd_attr_in l) (simp add: cycling_record_def FILE_magic_def)
  show "rd_attr cycling_record 72 = Ok \<lparr>attr_type = 0x10, attr_len = 0xFFFFFFD8, val_off = 0, val_len = 0\<rparr>"
    by (simp add: rd_attr_in l) (simp add: cycling_record_def FILE_magic_def)
qed

lemma cycling_record_steps:
  "attr_step X cycling_record 128 32 vid = Ok (Next 72 vid)"
  "attr_step X cycling_record 128 72 vid = Ok (Next 32 vid)"
  by (simp_all add: attr_step_def cycling_record_facts Let_def MFT_RECORD_ATTR_END_def
        MFT_RECORD_ATTR_VOLUME_INFO_def MFT_RECORD_ATTR_VOLUME_NAME_def)

lemma cycling_record_no_return:
  assumes "attr_walk X cycling_record 128 off vid = Some r"
  shows "off \<noteq> 32 \<and> off \<noteq> 72"
proof -
  have "cycling_record = cycling_record \<longrightarrow> (128 :: u32) = 128 \<longrightarrow> off \<noteq> 32 \<and> off \<noteq> 72"
  proof (rule attr_walk.raw_induct
    [where P = "\<lambda>X buf rsz off vid r.
                  buf = cycling_record \<longrightarrow> rsz = 128 \<longrightarrow> off \<noteq> 32 \<and> off \<noteq> 72",
     OF _ assms])
  fix walk X buf rsz off vid r
  assume IH: "\<And>X buf rsz off vid r. walk X buf rsz off vid = Some r \<Longrightarrow>
                 buf = cycling_record \<longrightarrow> rsz = 128 \<longrightarrow> off \<noteq> 32 \<and> off \<noteq> 72"
    and eq: "(case attr_step X buf rsz off vid of
                Fault e \<Rightarrow> Some (Fault e)
              | Ok (Break vid') \<Rightarrow> Some (Ok vid')
              | Ok (Next attr_off' vid') \<Rightarrow> walk X buf rsz attr_off' vid') = Some r"
  show "buf = cycling_record \<longrightarrow> rsz = 128 \<longrightarrow> off \<noteq> 32 \<and> off \<noteq> 72"
  proof (intro impI conjI notI)
    assume b: "buf = cycling_record" "rsz = 128" and "off = 32"
    with eq have "walk X cycling_record 128 72 vid = Some r"
      by (simp add: cycling_record_steps)
    from IH [OF this] show False by simp
  next
    assume b: "buf = cycling_record" "rsz = 128" and "off = 72"
    with eq have "walk X cycling_record 128 32 vid = Some r"
      by (simp add: cycling_record_steps)
    from IH [OF this] show False by simp
  qed
  qed
  then show ?thesis by simp
qed

lemma cycling_record_walk: "attr_walk X cycling_record 128 32 vid = None"
proof (cases "attr_walk X cycling_record 128 32 vid")
  case None
  then show ?thesis .
next
  case (Some r)
  from cycling_record_no_return [OF Some] show ?thesis by simp
qed

lemma long_name_record_facts:
  "length long_name_record = 128"
  "rd_attr long_name_record 32 = Ok \<lparr>attr_type = 0x60, attr_len = 88, val_off = 24, val_len = 200\<rparr>"
  "take 64 (drop 56 long_name_record) = replicate 64 0x41"
proof -
  show l: "length long_name_record = 128" by (simp add: long_name_record_def FILE_magic_def)
  show "rd_attr long_name_record 32 = Ok \<lparr>attr_type = 0x60, attr_len = 88, val_off = 24, val_len = 200\<rparr>"
    by (simp add: rd_attr_in l) (simp add: long_name_record_def FILE_magic_def)
  show "take 64 (drop 56 long_name_record) = replicate 64 0x41"
    by (simp add: long_name_record_def FILE_magic_def)
qed

section \<open>The probe\<close>

subsection \<open>The stages of the probe\<close>

lemma get_buffer_length: "volume_id_get_buffer src off n = Some bs \<Longrightarrow> length bs = n"
  by (auto simp: volume_id_get_buffer_def split: option.splits if_splits)

lemma memcmp_ne_in:
  "length s = n \<Longrightarrow> i + n \<le> length buf \<Longrightarrow> memcmp_ne buf i s = Ok (take n (drop i buf) \<noteq> s)"
  by (simp add: memcmp_ne_def rd_bytes_in)

lemma length_magic: "length NTFS_magic = 4" "length FILE_magic = 4"
  by (simp_all add: NTFS_magic_def FILE_magic_def)

lemma probe_no_boot:
  "volume_id_get_buffer src off 0x200 = None \<Longrightarrow>
   volume_id_probe_ntfs X src vid off = Some ([(off, 0x200)], Ok (- 1, vid))"
  by (simp add: volume_id_probe_ntfs_def)

lemma probe_bad_signature:
  assumes "volume_id_get_buffer src off 0x200 = Some ns" and "take 4 (drop 3 ns) \<noteq> NTFS_magic"
  shows "volume_id_probe_ntfs X src vid off = Some ([(off, 0x200)], Ok (- 1, vid))"
proof -
  have len: "length ns = 0x200" using assms(1) by (rule get_buffer_length)
  have "memcmp_ne ns 3 NTFS_magic = Ok True"
    using assms(2) len by (simp add: memcmp_ne_in [OF length_magic(1)])
  then show ?thesis using assms(1) by (simp add: volume_id_probe_ntfs_def)
qed

lemma probe_signature:
  assumes "volume_id_get_buffer src off 0x200 = Some ns" and "take 4 (drop 3 ns) = NTFS_magic"
  shows "volume_id_probe_ntfs X src vid off =
     (case ntfs_geometry ns of
        Fault e \<Rightarrow> Some ([(off, 0x200)], Fault e)
      | Ok g \<Rightarrow>
         (case volume_id_get_buffer src (volume_record_off off g) (unat (mft_record_size g)) of
            None \<Rightarrow> Some ([(off, 0x200), (volume_record_off off g, unat (mft_record_size g))],
                          Ok (found (volume_id_set_uuid vid (take 8 (drop 72 ns)))))
          | Some buf \<Rightarrow>
             (case probe_record X buf (mft_record_size g)
                     (volume_id_set_uuid vid (take 8 (drop 72 ns))) of
                None \<Rightarrow> None
              | Some r \<Rightarrow> Some ([(off, 0x200), (volume_record_off off g, unat (mft_record_size g))], r))))"
proof -
  have len: "length ns = 0x200" using assms(1) by (rule get_buffer_length)
  have "memcmp_ne ns 3 NTFS_magic = Ok False"
    using assms(2) len by (simp add: memcmp_ne_in [OF length_magic(1)])
  moreover have "rd_bytes ns 72 8 = Ok (take 8 (drop 72 ns))"
    using len by (simp add: rd_bytes_in)
  ultimately show ?thesis using assms(1)
    by (simp add: volume_id_probe_ntfs_def Let_def split: res.splits option.splits)
qed

lemma probe_record_bad_magic:
  assumes "4 \<le> length buf" and "take 4 buf \<noteq> FILE_magic"
  shows "probe_record X buf rsz vid = Some (Ok (found vid))"
proof -
  have "memcmp_ne buf 0 FILE_magic = Ok True"
    using assms by (simp add: memcmp_ne_in [OF length_magic(2)])
  then show ?thesis by (simp add: probe_record_def)
qed

lemma probe_record_magic:
  assumes "22 \<le> length buf" and "take 4 buf = FILE_magic"
  shows "probe_record X buf rsz vid =
     (case attr_walk X buf rsz (ucast (of_nat (le_val (take 2 (drop 20 buf))) :: u16)) vid of
        None \<Rightarrow> None
      | Some (Fault e) \<Rightarrow> Some (Fault e)
      | Some (Ok vid') \<Rightarrow> Some (Ok (found vid')))"
proof -
  have "memcmp_ne buf 0 FILE_magic = Ok False"
    using assms by (simp add: memcmp_ne_in [OF length_magic(2)])
  moreover have "rd_le16 buf 20 = Ok (of_nat (le_val (take 2 (drop 20 buf))))"
    using assms(1) by (simp add: rd_le16_def rd_bytes_in)
  ultimately show ?thesis by (simp add: probe_record_def)
qed

subsection \<open>What a run can end with\<close>

lemma attr_step_uuid:
  "attr_step X buf rsz off vid = Ok l \<Longrightarrow>
   (case l of Break v \<Rightarrow> uuid v = uuid vid | Next _ v \<Rightarrow> uuid v = uuid vid)"
  by (auto simp: attr_step_def Let_def res_bind_def volume_info_attr_def volume_name_attr_def
        volume_id_set_label_raw_def volume_id_set_label_unicode16_def
      split: res.splits if_splits)

lemma attr_walk_result:
  assumes "attr_walk X buf rsz off vid = Some r"
  shows "case r of Fault e \<Rightarrow> e = Out_Of_Bounds | Ok v \<Rightarrow> uuid v = uuid vid"
proof (rule attr_walk.raw_induct
    [where P = "\<lambda>X buf rsz off vid r.
                  (case r of Fault e \<Rightarrow> e = Out_Of_Bounds | Ok v \<Rightarrow> uuid v = uuid vid)",
     OF _ assms])
  fix walk X buf rsz off vid r
  assume IH: "\<And>X buf rsz off vid r. walk X buf rsz off vid = Some r \<Longrightarrow>
                 (case r of Fault e \<Rightarrow> e = Out_Of_Bounds | Ok v \<Rightarrow> uuid v = uuid vid)"
    and eq: "(case attr_step X buf rsz off vid of
                Fault e \<Rightarrow> Some (Fault e)
              | Ok (Break vid') \<Rightarrow> Some (Ok vid')
              | Ok (Next attr_off' vid') \<Rightarrow> walk X buf rsz attr_off' vid') = Some r"
  show "case r of Fault e \<Rightarrow> e = Out_Of_Bounds | Ok v \<Rightarrow> uuid v = uuid vid"
  proof (cases "attr_step X buf rsz off vid")
    case (Fault e)
    with eq attr_step_Fault [OF Fault] show ?thesis by auto
  next
    case (Ok l)
    show ?thesis
    proof (cases l)
      case (Break v)
      with Ok eq attr_step_uuid [OF Ok] show ?thesis by auto
    next
      case (Next off' vid')
      with Ok eq have "walk X buf rsz off' vid' = Some r" by simp
      from IH [OF this] attr_step_uuid [OF Ok] Next show ?thesis
        by (cases r) simp_all
    qed
  qed
qed

lemma found_simps [simp]:
  "fst (found vid) = 0" "uuid (snd (found vid)) = uuid vid"
  by (simp_all add: found_def volume_id_set_usage_def)

lemma probe_record_result:
  assumes "probe_record X buf rsz vid = Some r"
  shows "case r of Fault e \<Rightarrow> e = Out_Of_Bounds | Ok (ret, v) \<Rightarrow> ret = 0 \<and> uuid v = uuid vid"
proof (cases "memcmp_ne buf 0 FILE_magic")
  case (Fault e)
  then have "e = Out_Of_Bounds"
    by (auto simp: memcmp_ne_def rd_bytes_def res_bind_def split: if_splits)
  with Fault assms show ?thesis by (auto simp: probe_record_def)
next
  case (Ok ne)
  show ?thesis
  proof (cases ne)
    case True
    with Ok assms have "r = Ok (found vid)" by (auto simp: probe_record_def)
    then show ?thesis by (simp add: found_def volume_id_set_usage_def)
  next
    case False
    show ?thesis
    proof (cases "rd_le16 buf 20")
      case (Fault e)
      then have "e = Out_Of_Bounds"
        by (auto simp: rd_le16_def rd_bytes_def res_bind_def split: if_splits)
      with Fault Ok False assms show ?thesis by (auto simp: probe_record_def)
    next
      case ok: (Ok a)
      show ?thesis
      proof (cases "attr_walk X buf rsz (ucast a) vid")
        case None
        with Ok False ok assms show ?thesis by (simp add: probe_record_def)
      next
        case (Some w)
        from attr_walk_result [OF Some] Ok False ok assms Some show ?thesis
          by (cases w) (auto simp: probe_record_def found_def volume_id_set_usage_def)
      qed
    qed
  qed
qed



subsection \<open>Runs on the test vectors\<close>

lemma boot_sector_name:
  assumes "length oem = 8"
  shows "take 8 (drop 3 (boot_sector oem lo hi spc mft sb serial)) = oem"
  using assms by (simp add: boot_sector_def)

lemma get_buffer_source_of:
  "volume_id_get_buffer (source_of l) off n =
     (case map_of l (off, n) of None \<Rightarrow> None | Some bs \<Rightarrow> if length bs = n then Some bs else None)"
  by (simp add: volume_id_get_buffer_def source_of_def)

lemma geometry_example:
  "ntfs_geometry (boot_sector (NTFS_magic @ pad) 0x00 0x02 8 [4, 0, 0, 0, 0, 0, 0, 0] 0xF9 serial) =
     Ok \<lparr>sector_size = 512, cluster_size = 4096, mft_cluster = 4, mft_off = 16384,
         mft_record_size = 128\<rparr>"
  if "length pad = 4" and "length serial = 8"
  using that by (simp add: ntfs_geometry_512 mft_record_size_of_def NTFS_magic_def)

lemma volume_record_off_example:
  "volume_record_off 0 \<lparr>sector_size = 512, cluster_size = 4096, mft_cluster = 4,
      mft_off = 16384, mft_record_size = 128\<rparr> = 16768"
  by (simp add: volume_record_off_def MFT_RECORD_VOLUME_def)

lemma probe_example_no_record:
  assumes "length pad = 4"
  shows "volume_id_probe_ntfs X
       (source_of [((0, 512), boot_sector (NTFS_magic @ pad) 0x00 0x02 8 [4, 0, 0, 0, 0, 0, 0, 0] 0xF9
                                  [1, 2, 3, 4, 5, 6, 7, 8])]) vid 0 =
     Some ([(0, 512), (16768, 128)],
           Ok (0, vid\<lparr>uuid := Some 0x0807060504030201, usage_id := Some VOLUME_ID_FILESYSTEM,
                     type := Some ''ntfs''\<rparr>))"
proof -
  let ?ns = "boot_sector (NTFS_magic @ pad) 0x00 0x02 8 [4, 0, 0, 0, 0, 0, 0, 0] 0xF9 [1, 2, 3, 4, 5, 6, 7, 8]"
  let ?src = "source_of [((0, 512), ?ns)]"
  have l: "length (NTFS_magic @ pad) = 8" using assms by (simp add: NTFS_magic_def)
  have boot: "volume_id_get_buffer ?src 0 0x200 = Some ?ns"
    using l by (simp add: get_buffer_source_of)
  have sig: "take 4 (drop 3 ?ns) = NTFS_magic" using l by (simp add: NTFS_magic_def)
  have geo: "ntfs_geometry ?ns = Ok \<lparr>sector_size = 512, cluster_size = 4096, mft_cluster = 4,
      mft_off = 16384, mft_record_size = 128\<rparr>"
    using assms by (simp add: geometry_example)
  have ser: "take 8 (drop 72 ?ns) = [1, 2, 3, 4, 5, 6, 7, 8]" using l by simp
  show ?thesis
    by (simp add: probe_signature [OF boot sig] geo volume_record_off_example
          get_buffer_source_of ser found_def volume_id_set_usage_def volume_id_set_uuid_def)
qed

lemma geometry_zero:
  "ntfs_geometry (boot_sector (NTFS_magic @ [0x20, 0x20, 0x20, 0x20]) 0 0 0 [0, 0, 0, 0, 0, 0, 0, 0] 0
                    [1, 2, 3, 4, 5, 6, 7, 8]) =
     Ok \<lparr>sector_size = 0, cluster_size = 0, mft_cluster = 0, mft_off = 0, mft_record_size = 0\<rparr>"
  by (simp add: ntfs_geometry_512 mft_record_size_of_def NTFS_magic_def)


lemma cycling_record_probe: "probe_record X cycling_record 128 vid = None"
  by (simp add: probe_record_magic cycling_record_facts cycling_record_walk)



section \<open>Claims about the geometry\<close>

text \<open>
  C3 (amended). For every 512-byte boot sector: a negative size byte \<open>-n\<close> with
  \<open>n \<le> 30\<close> gives the record size \<open>2 ^ n\<close>; a non-negative size byte \<open>m\<close>
  gives exactly \<open>m\<close> times the cluster size (no wrap-around), the cluster size being
  sectors per cluster times bytes per sector; for \<open>n > 30\<close> the shift
  \<^verbatim>\<open>1 << n\<close> is undefined and there is no record size.
\<close>

theorem record_size_dual_encoding:
  assumes "length ns = 0x200"
  shows "(sint (ns ! 64) < 0 \<and> - 30 \<le> sint (ns ! 64) \<longrightarrow>
            (\<exists>g. ntfs_geometry ns = Ok g \<and> unat (mft_record_size g) = 2 ^ nat (- sint (ns ! 64))))
       \<and> (0 \<le> sint (ns ! 64) \<longrightarrow>
            (\<exists>g. ntfs_geometry ns = Ok g
                 \<and> unat (mft_record_size g) = nat (sint (ns ! 64)) * unat (cluster_size g)
                 \<and> unat (cluster_size g) = unat (ns ! 13) * le_val (take 2 (drop 11 ns))))
       \<and> (sint (ns ! 64) < - 30 \<longrightarrow> ntfs_geometry ns = Fault Shift_Undefined)"
proof (intro conjI impI)
  define b where "b = ns ! 64"
  define bps :: u16 where "bps = of_nat (le_val (take 2 (drop 11 ns)))"
  define cs :: u32 where "cs = ucast (ns ! 13) * ucast bps"
  have geo: "ntfs_geometry ns = res_bind (mft_record_size_of b cs) (\<lambda>rsz. Ok \<lparr>sector_size = ucast bps,
                 cluster_size = cs, mft_cluster = of_nat (le_val (take 8 (drop 48 ns))),
                 mft_off = of_nat (le_val (take 8 (drop 48 ns))) * ucast cs,
                 mft_record_size = rsz\<rparr>)"
    using ntfs_geometry_512 [OF assms] by (simp add: b_def bps_def cs_def)
  {
    assume "sint (ns ! 64) < 0 \<and> - 30 \<le> sint (ns ! 64)"
    then have "sint b < 0" and "nat (- sint b) \<le> 30" unfolding b_def by linarith+
    then obtain rs where "mft_record_size_of b cs = Ok rs" and "unat rs = 2 ^ nat (- sint b)"
      using mft_neg by blast
    then show "\<exists>g. ntfs_geometry ns = Ok g \<and> unat (mft_record_size g) = 2 ^ nat (- sint (ns ! 64))"
      by (simp add: geo b_def)
  }
  {
    assume nonneg: "0 \<le> sint (ns ! 64)"
    have "length (take 2 (drop 11 ns)) = 2" using assms by simp
    then have "le_val (take 2 (drop 11 ns)) < 65536"
      using le_val_bound [of "take 2 (drop 11 ns)"] by simp
    then have bps: "unat bps = le_val (take 2 (drop 11 ns))"
      by (simp add: bps_def unat_of_nat)
    have cs: "unat cs = unat (ns ! 13) * unat bps" and le: "unat cs \<le> 255 * 65535"
      using cluster_size_bound [of "ns ! 13" bps] by (simp_all add: cs_def)
    obtain rs where "mft_record_size_of b cs = Ok rs" and "unat rs = nat (sint b) * unat cs"
      using mft_pos [of b cs] nonneg le by (auto simp: b_def)
    then show "\<exists>g. ntfs_geometry ns = Ok g
                 \<and> unat (mft_record_size g) = nat (sint (ns ! 64)) * unat (cluster_size g)
                 \<and> unat (cluster_size g) = unat (ns ! 13) * le_val (take 2 (drop 11 ns))"
      by (simp add: geo b_def cs bps)
  }
  {
    assume "sint (ns ! 64) < - 30"
    then have "mft_record_size_of b cs = Fault Shift_Undefined"
      by (simp add: mft_record_size_of_def b_def)
    then show "ntfs_geometry ns = Fault Shift_Undefined" by (simp add: geo)
  }
qed

theorem record_size_dual_encoding_witness:
  "(\<exists>g. ntfs_geometry (boot_sector [0x4E, 0x54, 0x46, 0x53, 0x20, 0x20, 0x20, 0x20] 0x00 0x02 8 [4, 0, 0, 0, 0, 0, 0, 0] 0xFF [1, 2, 3, 4, 5, 6, 7, 8]) = Ok g
       \<and> unat (mft_record_size g) = 2)
 \<and> (\<exists>g. ntfs_geometry (boot_sector [0x4E, 0x54, 0x46, 0x53, 0x20, 0x20, 0x20, 0x20] 0x00 0x02 8 [4, 0, 0, 0, 0, 0, 0, 0] 4 [1, 2, 3, 4, 5, 6, 7, 8]) = Ok g
       \<and> unat (mft_record_size g) = 4 * unat (cluster_size g) \<and> unat (cluster_size g) = 8 * 512)
 \<and> ntfs_geometry (boot_sector [0x4E, 0x54, 0x46, 0x53, 0x20, 0x20, 0x20, 0x20] 0x00 0x02 8 [4, 0, 0, 0, 0, 0, 0, 0] 0xE1 [1, 2, 3, 4, 5, 6, 7, 8]) = Fault Shift_Undefined"
  using record_size_dual_encoding [of "boot_sector [0x4E, 0x54, 0x46, 0x53, 0x20, 0x20, 0x20, 0x20] 0x00 0x02 8 [4, 0, 0, 0, 0, 0, 0, 0] 0xFF [1, 2, 3, 4, 5, 6, 7, 8]"]
        record_size_dual_encoding [of "boot_sector [0x4E, 0x54, 0x46, 0x53, 0x20, 0x20, 0x20, 0x20] 0x00 0x02 8 [4, 0, 0, 0, 0, 0, 0, 0] 4 [1, 2, 3, 4, 5, 6, 7, 8]"]
        record_size_dual_encoding [of "boot_sector [0x4E, 0x54, 0x46, 0x53, 0x20, 0x20, 0x20, 0x20] 0x00 0x02 8 [4, 0, 0, 0, 0, 0, 0, 0] 0xE1 [1, 2, 3, 4, 5, 6, 7, 8]"]
  by simp

text \<open>
  C3 as stated fails: with the size byte \<open>-128\<close> the code evaluates
  \<^verbatim>\<open>1 << 128\<close>, which C leaves undefined.
\<close>

theorem record_size_shift_counterexample:
  "sint (boot_sector [0x4E, 0x54, 0x46, 0x53, 0x20, 0x20, 0x20, 0x20] 0x00 0x02 8 [4, 0, 0, 0, 0, 0, 0, 0] 0x80 [1, 2, 3, 4, 5, 6, 7, 8] ! 64) = - 128
   \<and> ntfs_geometry (boot_sector [0x4E, 0x54, 0x46, 0x53, 0x20, 0x20, 0x20, 0x20] 0x00 0x02 8 [4, 0, 0, 0, 0, 0, 0, 0] 0x80 [1, 2, 3, 4, 5, 6, 7, 8]) = Fault Shift_Undefined"
  by (simp add: ntfs_geometry_512 mft_record_size_of_def)

section \<open>Claims about the attribute walk\<close>

text \<open>
  C10 (code defect). The claim is that the walk ends for every record buffer. The code adds
  the whole 32-bit length field to the 32-bit offset, so the offset can wrap: in the record
  of the test vectors the attribute at 32 has length 40 and leads to 72, and the attribute
  at 72 has length \<open>0xFFFFFFD8\<close>, which leads back to 32, since \<open>72 + 0xFFFFFFD8\<close> is
  \<open>2^32 + 32\<close>. None of the three breaks fires at either attribute, no read leaves the
  record, and neither the walk nor the probe returns.
\<close>

theorem attr_walk_cycles:
  "attr_step sizes cycling_record 128 32 unset_id = Ok (Next 72 unset_id)
   \<and> attr_step sizes cycling_record 128 72 unset_id = Ok (Next 32 unset_id)
   \<and> attr_walk sizes cycling_record 128 32 unset_id = None
   \<and> volume_id_probe_ntfs sizes
        (source_of [((0, 512), boot_sector [0x4E, 0x54, 0x46, 0x53, 0x20, 0x20, 0x20, 0x20] 0x00 0x02 8
                      [4, 0, 0, 0, 0, 0, 0, 0] 0xF9 [1, 2, 3, 4, 5, 6, 7, 8]),
                    ((16768, 128), cycling_record)]) unset_id 0 = None"
proof -
  let ?ns = "boot_sector (NTFS_magic @ [0x20, 0x20, 0x20, 0x20]) 0x00 0x02 8 [4, 0, 0, 0, 0, 0, 0, 0] 0xF9
               [1, 2, 3, 4, 5, 6, 7, 8]"
  let ?src = "source_of [((0, 512), ?ns), ((16768, 128), cycling_record)]"
  let ?g = "\<lparr>sector_size = 512, cluster_size = 4096, mft_cluster = 4,
      mft_off = 16384, mft_record_size = 128\<rparr>"
  have l: "length (NTFS_magic @ [0x20, 0x20, 0x20, 0x20]) = 8" by (simp add: NTFS_magic_def)
  have boot: "volume_id_get_buffer ?src 0 0x200 = Some ?ns"
    using l by (simp add: get_buffer_source_of)
  have sig: "take 4 (drop 3 ?ns) = NTFS_magic" using l by (simp add: NTFS_magic_def)
  have geo: "ntfs_geometry ?ns = Ok ?g" by (simp add: geometry_example)
  have rec: "volume_id_get_buffer ?src (volume_record_off 0 ?g) (unat (mft_record_size ?g))
               = Some cycling_record"
    by (simp add: get_buffer_source_of volume_record_off_example cycling_record_facts)
  have "probe_record sizes cycling_record (mft_record_size ?g) vid = None" for vid
    by (simp add: cycling_record_probe)
  with rec have "volume_id_probe_ntfs sizes ?src unset_id 0 = None"
    by (simp add: probe_signature [OF boot sig] geo)
  then show ?thesis
    by (simp add: cycling_record_steps cycling_record_walk NTFS_magic_def)
qed

text \<open>
  C2 (amended). The loop body reads the 22 header bytes at the current offset before any
  check. For every record buffer that holds these bytes, the three conditions are tried in
  the order of the code, each ending the walk normally with the identity record as it is:
  a total length of 0; otherwise a next offset at or beyond the record size; otherwise the
  end marker. If none holds the loop body does not leave the loop. The walk ends without
  any read at the next offset: the statement holds for every buffer that contains the
  header, also one that ends before the next offset.
\<close>

theorem walk_termination_checks:
  assumes "rd_attr buf (unat attr_off) = Ok h"
  shows "(attr_len h = 0 \<longrightarrow>
            attr_step X buf rsz attr_off vid = Ok (Break vid)
            \<and> attr_walk X buf rsz attr_off vid = Some (Ok vid))
       \<and> (attr_len h \<noteq> 0 \<and> rsz \<le> attr_off + attr_len h \<longrightarrow>
            attr_step X buf rsz attr_off vid = Ok (Break vid)
            \<and> attr_walk X buf rsz attr_off vid = Some (Ok vid))
       \<and> (attr_len h \<noteq> 0 \<and> attr_off + attr_len h < rsz \<and> attr_type h = MFT_RECORD_ATTR_END \<longrightarrow>
            attr_step X buf rsz attr_off vid = Ok (Break vid)
            \<and> attr_walk X buf rsz attr_off vid = Some (Ok vid))
       \<and> (attr_len h \<noteq> 0 \<and> attr_off + attr_len h < rsz \<and> attr_type h \<noteq> MFT_RECORD_ATTR_END \<longrightarrow>
            (\<forall>v. attr_step X buf rsz attr_off vid \<noteq> Ok (Break v)))"
proof (intro conjI impI)
  assume "attr_len h = 0"
  then have b: "attr_step X buf rsz attr_off vid = Ok (Break vid)"
    using assms by (intro attr_step_breaks) auto
  then show "attr_step X buf rsz attr_off vid = Ok (Break vid)"
    and "attr_walk X buf rsz attr_off vid = Some (Ok vid)"
    by (simp_all add: attr_walk_breaks)
next
  assume "attr_len h \<noteq> 0 \<and> rsz \<le> attr_off + attr_len h"
  then have b: "attr_step X buf rsz attr_off vid = Ok (Break vid)"
    using assms by (intro attr_step_breaks) auto
  then show "attr_step X buf rsz attr_off vid = Ok (Break vid)"
    and "attr_walk X buf rsz attr_off vid = Some (Ok vid)"
    by (simp_all add: attr_walk_breaks)
next
  assume "attr_len h \<noteq> 0 \<and> attr_off + attr_len h < rsz \<and> attr_type h = MFT_RECORD_ATTR_END"
  then have b: "attr_step X buf rsz attr_off vid = Ok (Break vid)"
    using assms by (intro attr_step_breaks) auto
  then show "attr_step X buf rsz attr_off vid = Ok (Break vid)"
    and "attr_walk X buf rsz attr_off vid = Some (Ok vid)"
    by (simp_all add: attr_walk_breaks)
next
  assume "attr_len h \<noteq> 0 \<and> attr_off + attr_len h < rsz \<and> attr_type h \<noteq> MFT_RECORD_ATTR_END"
  then have "attr_step X buf rsz attr_off vid =
     res_bind (if attr_type h = MFT_RECORD_ATTR_VOLUME_INFO
               then volume_info_attr X buf (unat attr_off + unat (val_off h)) vid
               else Ok vid) (\<lambda>vid1.
     res_bind (if attr_type h = MFT_RECORD_ATTR_VOLUME_NAME
               then volume_name_attr X buf (unat attr_off + unat (val_off h)) (val_len h) vid1
               else Ok vid1) (\<lambda>vid2.
       Ok (Next (attr_off + attr_len h) vid2)))"
    using assms by (intro attr_step_goes_on) auto
  then show "\<forall>v. attr_step X buf rsz attr_off vid \<noteq> Ok (Break v)"
    by (auto simp: res_bind_def split: res.splits)
qed

theorem walk_termination_checks_witness:
  "attr_walk sizes volume_record 128 104 unset_id = Some (Ok unset_id)
   \<and> attr_walk sizes boundary_record 64 40 unset_id = Some (Ok unset_id)
   \<and> attr_walk sizes boundary_record 64 0 unset_id = Some (Ok unset_id)
   \<and> (\<forall>v. attr_step sizes volume_record 128 32 unset_id \<noteq> Ok (Break v))"
  using walk_termination_checks [of volume_record 104
          "\<lparr>attr_type = 0xFFFFFFFF, attr_len = 0, val_off = 0, val_len = 0\<rparr>" sizes 128 unset_id]
        walk_termination_checks [of boundary_record 40
          "\<lparr>attr_type = 0x60, attr_len = 24, val_off = 0, val_len = 0\<rparr>" sizes 64 unset_id]
        walk_termination_checks [of boundary_record 0
          "\<lparr>attr_type = 0xFFFFFFFF, attr_len = 8, val_off = 0, val_len = 0\<rparr>" sizes 64 unset_id]
        walk_termination_checks [of volume_record 32
          "\<lparr>attr_type = 0x70, attr_len = 40, val_off = 24, val_len = 12\<rparr>" sizes 128 unset_id]
  by (simp add: MFT_RECORD_ATTR_END_def volume_record_attr_32 volume_record_attr_104 boundary_record_facts)

text \<open>
  C2 as stated fails: in a 64-byte record an attribute at offset 44 has its type and its
  length 24 inside the record and the next offset 68 beyond it, yet the walk does not end
  normally, because the value offset field at 64 and 65 is read before the checks; and in
  the boundary case of the spec, an attribute at offset 60 of 64 bytes, the length field
  itself is read at 64.
\<close>

theorem walk_header_read_first_counterexample:
  "length late_attr_record = 64
   \<and> rd_le32 late_attr_record 44 = Ok 0x60
   \<and> rd_le32 late_attr_record 48 = Ok 24
   \<and> (64 :: u32) \<le> 44 + 24
   \<and> attr_walk sizes late_attr_record 64 44 unset_id = Some (Fault Out_Of_Bounds)
   \<and> length truncated_attr_record = 64
   \<and> attr_walk sizes truncated_attr_record 64 60 unset_id = Some (Fault Out_Of_Bounds)"
proof -
  have "attr_step sizes late_attr_record 64 44 unset_id = Fault Out_Of_Bounds"
    by (simp add: attr_step_def late_attr_record_facts)
  then have a: "attr_walk sizes late_attr_record 64 44 unset_id = Some (Fault Out_Of_Bounds)"
    by (subst attr_walk.simps) simp
  have "attr_step sizes truncated_attr_record 64 60 unset_id = Fault Out_Of_Bounds"
    by (simp add: attr_step_def rd_attr_out truncated_attr_record_length)
  then have b: "attr_walk sizes truncated_attr_record 64 60 unset_id = Some (Fault Out_Of_Bounds)"
    by (subst attr_walk.simps) simp
  show ?thesis using a b by (simp add: late_attr_record_facts truncated_attr_record_length)
qed

text \<open>
  C8. For a Volume-Name attribute that passes the termination checks, the loop body copies
  \<open>min value_length VOLUME_ID_LABEL_SIZE\<close> bytes from the value offset: exactly
  \<^verbatim>\<open>VOLUME_ID_LABEL_SIZE\<close> bytes when the value length exceeds it. These bytes
  become \<open>label_raw\<close>, and the same bytes decoded as little-endian 16-bit code units
  become \<open>label\<close>. The bytes copied are taken to lie in the record buffer; what happens
  when they do not is the subject of C1.
\<close>

theorem volume_name_label_clamped:
  assumes hdr: "rd_attr buf (unat attr_off) = Ok h"
    and go: "attr_len h \<noteq> 0" "attr_off + attr_len h < rsz"
    and name: "attr_type h = MFT_RECORD_ATTR_VOLUME_NAME"
    and inb: "unat attr_off + unat (val_off h) + min (unat (val_len h)) (VOLUME_ID_LABEL_SIZE X)
              \<le> length buf"
  shows "\<exists>bs. attr_step X buf rsz attr_off vid =
                 Ok (Next (attr_off + attr_len h)
                       (vid\<lparr>label_raw := Some bs, label := Some (units16_le bs)\<rparr>))
            \<and> bs = take (min (unat (val_len h)) (VOLUME_ID_LABEL_SIZE X))
                      (drop (unat attr_off + unat (val_off h)) buf)
            \<and> length bs = min (unat (val_len h)) (VOLUME_ID_LABEL_SIZE X)
            \<and> (VOLUME_ID_LABEL_SIZE X < unat (val_len h) \<longrightarrow> length bs = VOLUME_ID_LABEL_SIZE X)"
proof -
  let ?n = "min (unat (val_len h)) (VOLUME_ID_LABEL_SIZE X)"
  let ?val = "unat attr_off + unat (val_off h)"
  have ne: "attr_type h \<noteq> MFT_RECORD_ATTR_END" "attr_type h \<noteq> MFT_RECORD_ATTR_VOLUME_INFO"
    using name by (simp_all add: MFT_RECORD_ATTR_END_def MFT_RECORD_ATTR_VOLUME_INFO_def
        MFT_RECORD_ATTR_VOLUME_NAME_def)
  have n: "(if unat (val_len h) > VOLUME_ID_LABEL_SIZE X then VOLUME_ID_LABEL_SIZE X
            else unat (val_len h)) = ?n" by simp
  have rd: "rd_bytes buf ?val ?n = Ok (take ?n (drop ?val buf))"
    using inb by (simp add: rd_bytes_in)
  have "volume_name_attr X buf ?val (val_len h) vid =
          Ok (vid\<lparr>label_raw := Some (take ?n (drop ?val buf)),
                   label := Some (units16_le (take ?n (drop ?val buf)))\<rparr>)"
    unfolding volume_name_attr_def n Let_def rd
    by (simp add: volume_id_set_label_raw_def volume_id_set_label_unicode16_def)
  then have step: "attr_step X buf rsz attr_off vid =
      Ok (Next (attr_off + attr_len h)
            (vid\<lparr>label_raw := Some (take ?n (drop ?val buf)),
                  label := Some (units16_le (take ?n (drop ?val buf)))\<rparr>))"
    using ne name by (simp add: attr_step_goes_on [OF hdr go ne(1)])
  have len: "length (take ?n (drop ?val buf)) = ?n" using inb by simp
  show ?thesis using step len by auto
qed

theorem volume_name_label_clamped_witness:
  "attr_step sizes long_name_record 128 32 unset_id =
     Ok (Next 120 (unset_id\<lparr>label_raw := Some (replicate 64 0x41),
                            label := Some (units16_le (replicate 64 0x41))\<rparr>))
   \<and> length (replicate 64 (0x41 :: u8)) = VOLUME_ID_LABEL_SIZE sizes"
  using volume_name_label_clamped [of long_name_record 32
          "\<lparr>attr_type = 0x60, attr_len = 88, val_off = 24, val_len = 200\<rparr>" 128 sizes unset_id]
  by (simp add: MFT_RECORD_ATTR_VOLUME_NAME_def sizes_def long_name_record_facts)

text \<open>
  C1 (amended). The only bound the walk checks is that the next attribute offset is below
  the record size before it goes round again. Header fields and value payloads are read
  unchecked: the loop body reads outside the record buffer exactly when the 22-byte header
  at the current offset does not fit, or when the attribute passes the termination checks
  and the two version bytes of a Volume-Info value (at value offset + 8 and + 9) or the
  \<open>min value_length VOLUME_ID_LABEL_SIZE\<close> bytes of a Volume-Name value do not fit. Such
  an attribute is read, not skipped.
\<close>

theorem attr_step_reads_unchecked:
  "(attr_step X buf rsz attr_off vid = Fault Out_Of_Bounds \<longleftrightarrow>
      length buf < unat attr_off + 22
      \<or> (\<exists>h. rd_attr buf (unat attr_off) = Ok h
             \<and> attr_len h \<noteq> 0 \<and> attr_off + attr_len h < rsz
             \<and> attr_type h \<noteq> MFT_RECORD_ATTR_END
             \<and> (attr_type h = MFT_RECORD_ATTR_VOLUME_INFO
                  \<and> length buf < unat attr_off + unat (val_off h) + 10
                 \<or> attr_type h = MFT_RECORD_ATTR_VOLUME_NAME
                  \<and> length buf < unat attr_off + unat (val_off h)
                                  + min (unat (val_len h)) (VOLUME_ID_LABEL_SIZE X))))
   \<and> (\<forall>off' vid'. attr_step X buf rsz attr_off vid = Ok (Next off' vid') \<longrightarrow> off' < rsz)"
proof (intro conjI allI impI)
  fix off' vid'
  assume "attr_step X buf rsz attr_off vid = Ok (Next off' vid')"
  from attr_step_NextD [OF this] show "off' < rsz" by blast
next
  show "attr_step X buf rsz attr_off vid = Fault Out_Of_Bounds \<longleftrightarrow>
      length buf < unat attr_off + 22
      \<or> (\<exists>h. rd_attr buf (unat attr_off) = Ok h
             \<and> attr_len h \<noteq> 0 \<and> attr_off + attr_len h < rsz
             \<and> attr_type h \<noteq> MFT_RECORD_ATTR_END
             \<and> (attr_type h = MFT_RECORD_ATTR_VOLUME_INFO
                  \<and> length buf < unat attr_off + unat (val_off h) + 10
                 \<or> attr_type h = MFT_RECORD_ATTR_VOLUME_NAME
                  \<and> length buf < unat attr_off + unat (val_off h)
                                  + min (unat (val_len h)) (VOLUME_ID_LABEL_SIZE X)))"
    (is "?L \<longleftrightarrow> ?A \<or> ?B")
  proof (cases "length buf < unat attr_off + 22")
    case True
    then have "attr_step X buf rsz attr_off vid = Fault Out_Of_Bounds"
      by (simp add: attr_step_def rd_attr_out)
    with True show ?thesis by simp
  next
    case False
    then have "unat attr_off + 22 \<le> length buf" by simp
    from rd_attr_in [OF this] obtain h where h: "rd_attr buf (unat attr_off) = Ok h" by blast
    show ?thesis
    proof (cases "attr_len h = 0 \<or> rsz \<le> attr_off + attr_len h \<or> attr_type h = MFT_RECORD_ATTR_END")
      case True
      from attr_step_breaks [OF h True] have "\<not> ?L" by simp
      moreover have "\<not> ?B" using True h by (auto simp: not_less)
      ultimately show ?thesis using False by simp
    next
      case go: False
      then have g: "attr_len h \<noteq> 0" "attr_off + attr_len h < rsz"
        "attr_type h \<noteq> MFT_RECORD_ATTR_END" by (simp_all add: not_le)
      note step = attr_step_goes_on [OF h g]
      consider (info) "attr_type h = MFT_RECORD_ATTR_VOLUME_INFO"
        | (name) "attr_type h = MFT_RECORD_ATTR_VOLUME_NAME"
        | (other) "attr_type h \<noteq> MFT_RECORD_ATTR_VOLUME_INFO"
                  "attr_type h \<noteq> MFT_RECORD_ATTR_VOLUME_NAME" by blast
      then show ?thesis
      proof cases
        case info
        then have nn: "attr_type h \<noteq> MFT_RECORD_ATTR_VOLUME_NAME"
          using volume_name_attr_not_info by simp
        have "?L \<longleftrightarrow> volume_info_attr X buf (unat attr_off + unat (val_off h)) vid
                          = Fault Out_Of_Bounds"
          unfolding step using info nn
          by (cases "volume_info_attr X buf (unat attr_off + unat (val_off h)) vid") simp_all
        also have "\<dots> \<longleftrightarrow> length buf < unat attr_off + unat (val_off h) + 10"
          by (rule volume_info_attr_fault)
        also have "\<dots> \<longleftrightarrow> ?B" using h g info nn by auto
        finally show ?thesis using False by simp
      next
        case name
        then have ni: "attr_type h \<noteq> MFT_RECORD_ATTR_VOLUME_INFO"
          using volume_name_attr_not_info by simp
        have "?L \<longleftrightarrow> volume_name_attr X buf (unat attr_off + unat (val_off h)) (val_len h) vid
                          = Fault Out_Of_Bounds"
          unfolding step using name ni
          by (cases "volume_name_attr X buf (unat attr_off + unat (val_off h)) (val_len h) vid")
             simp_all
        also have "\<dots> \<longleftrightarrow> length buf < unat attr_off + unat (val_off h)
                                  + min (unat (val_len h)) (VOLUME_ID_LABEL_SIZE X)"
          by (rule volume_name_attr_fault)
        also have "\<dots> \<longleftrightarrow> ?B" using h g name ni by auto
        finally show ?thesis using False by simp
      next
        case other
        have "\<not> ?L" unfolding step using other by simp
        moreover have "\<not> ?B" using h other by auto
        ultimately show ?thesis using False by simp
      qed
    qed
  qed
qed

theorem attr_step_reads_unchecked_witness:
  "attr_step sizes truncated_attr_record 64 60 unset_id = Fault Out_Of_Bounds
   \<and> attr_step sizes volume_record 128 32 unset_id
       = Ok (Next 72 (unset_id\<lparr>type_version := Some ''3.1''\<rparr>))
   \<and> (72 :: u32) < 128"
  using attr_step_reads_unchecked [of sizes truncated_attr_record 64 60 unset_id]
        attr_step_reads_unchecked [of sizes volume_record 128 32 unset_id]
  by (simp add: truncated_attr_record_length volume_record_step_32)

text \<open>
  C1 as stated fails: in the 64-byte record the header at offset 60 is read past the end of
  the record, and in the other record the Volume-Info value at offset 32 + 200 is read
  although it lies outside the 128 bytes.
\<close>

theorem attr_walk_out_of_bounds_counterexample:
  "length truncated_attr_record = 64
   \<and> attr_walk sizes truncated_attr_record 64 60 unset_id = Some (Fault Out_Of_Bounds)
   \<and> length far_value_record = 128
   \<and> attr_walk sizes far_value_record 128 32 unset_id = Some (Fault Out_Of_Bounds)"
proof -
  have "attr_step sizes truncated_attr_record 64 60 unset_id = Fault Out_Of_Bounds"
    by (simp add: attr_step_def rd_attr_out truncated_attr_record_length)
  then have a: "attr_walk sizes truncated_attr_record 64 60 unset_id = Some (Fault Out_Of_Bounds)"
    by (subst attr_walk.simps) simp
  have "attr_step sizes far_value_record 128 32 unset_id = Fault Out_Of_Bounds"
    by (simp add: attr_step_def far_value_record_facts Let_def MFT_RECORD_ATTR_END_def
          MFT_RECORD_ATTR_VOLUME_INFO_def volume_info_attr_def rd_u8_def)
  then have b: "attr_walk sizes far_value_record 128 32 unset_id = Some (Fault Out_Of_Bounds)"
    by (subst attr_walk.simps) simp
  show ?thesis using a b by (simp add: truncated_attr_record_length far_value_record_facts)
qed

section \<open>Claims about the probe\<close>

text \<open>
  C6 (amended). For every 512-byte boot sector in which the first four bytes of the name
  field differ from \<^verbatim>\<open>NTFS\<close>, the probe returns no-match (-1), has requested nothing
  but the boot sector, and leaves the identity record as it was. Only those four bytes are
  compared, not the whole 8-byte name field.
\<close>

theorem probe_no_match_without_signature:
  assumes "volume_id_get_buffer src off 0x200 = Some ns" and "take 4 (drop 3 ns) \<noteq> NTFS_magic"
  shows "volume_id_probe_ntfs X src vid off = Some ([(off, 0x200)], Ok (- 1, vid))"
  using assms by (rule probe_bad_signature)

theorem probe_no_match_without_signature_witness:
  "volume_id_get_buffer
     (source_of [((0, 512), boot_sector [0x4D, 0x53, 0x44, 0x4F, 0x53, 0x35, 0x2E, 0x30] 0x00 0x02 8
                               [4, 0, 0, 0, 0, 0, 0, 0] 0xF9 [1, 2, 3, 4, 5, 6, 7, 8])]) 0 0x200
     = Some (boot_sector [0x4D, 0x53, 0x44, 0x4F, 0x53, 0x35, 0x2E, 0x30] 0x00 0x02 8
                               [4, 0, 0, 0, 0, 0, 0, 0] 0xF9 [1, 2, 3, 4, 5, 6, 7, 8])
   \<and> take 4 (drop 3 (boot_sector [0x4D, 0x53, 0x44, 0x4F, 0x53, 0x35, 0x2E, 0x30] 0x00 0x02 8
                               [4, 0, 0, 0, 0, 0, 0, 0] 0xF9 [1, 2, 3, 4, 5, 6, 7, 8])) \<noteq> NTFS_magic
   \<and> volume_id_probe_ntfs sizes
        (source_of [((0, 512), boot_sector [0x4D, 0x53, 0x44, 0x4F, 0x53, 0x35, 0x2E, 0x30] 0x00 0x02 8
                               [4, 0, 0, 0, 0, 0, 0, 0] 0xF9 [1, 2, 3, 4, 5, 6, 7, 8])]) unset_id 0
       = Some ([(0, 0x200)], Ok (- 1, unset_id))"
  using probe_no_match_without_signature
    [of "source_of [((0, 512), boot_sector [0x4D, 0x53, 0x44, 0x4F, 0x53, 0x35, 0x2E, 0x30] 0x00 0x02 8
                               [4, 0, 0, 0, 0, 0, 0, 0] 0xF9 [1, 2, 3, 4, 5, 6, 7, 8])]" 0
        "boot_sector [0x4D, 0x53, 0x44, 0x4F, 0x53, 0x35, 0x2E, 0x30] 0x00 0x02 8
                               [4, 0, 0, 0, 0, 0, 0, 0] 0xF9 [1, 2, 3, 4, 5, 6, 7, 8]" sizes unset_id]
  by (simp add: get_buffer_source_of NTFS_magic_def)

text \<open>
  C6 as stated fails: the name fields \<^verbatim>\<open>"NTFS    "\<close> and \<^verbatim>\<open>"NTFSXXXX"\<close>
  differ, so at most one of them is the 8-byte signature, yet the probe matches both.
\<close>

theorem probe_signature_prefix_counterexample:
  "take 8 (drop 3 (boot_sector [0x4E, 0x54, 0x46, 0x53, 0x20, 0x20, 0x20, 0x20] 0x00 0x02 8
                     [4, 0, 0, 0, 0, 0, 0, 0] 0xF9 [1, 2, 3, 4, 5, 6, 7, 8]))
     \<noteq> take 8 (drop 3 (boot_sector [0x4E, 0x54, 0x46, 0x53, 0x58, 0x58, 0x58, 0x58] 0x00 0x02 8
                     [4, 0, 0, 0, 0, 0, 0, 0] 0xF9 [1, 2, 3, 4, 5, 6, 7, 8]))
   \<and> volume_id_probe_ntfs sizes
        (source_of [((0, 512), boot_sector [0x4E, 0x54, 0x46, 0x53, 0x20, 0x20, 0x20, 0x20] 0x00 0x02 8
                     [4, 0, 0, 0, 0, 0, 0, 0] 0xF9 [1, 2, 3, 4, 5, 6, 7, 8])]) unset_id 0
       = Some ([(0, 512), (16768, 128)],
               Ok (0, unset_id\<lparr>uuid := Some 0x0807060504030201,
                     usage_id := Some VOLUME_ID_FILESYSTEM, type := Some ''ntfs''\<rparr>))
   \<and> volume_id_probe_ntfs sizes
        (source_of [((0, 512), boot_sector [0x4E, 0x54, 0x46, 0x53, 0x58, 0x58, 0x58, 0x58] 0x00 0x02 8
                     [4, 0, 0, 0, 0, 0, 0, 0] 0xF9 [1, 2, 3, 4, 5, 6, 7, 8])]) unset_id 0
       = Some ([(0, 512), (16768, 128)],
               Ok (0, unset_id\<lparr>uuid := Some 0x0807060504030201,
                     usage_id := Some VOLUME_ID_FILESYSTEM, type := Some ''ntfs''\<rparr>))"
  using probe_example_no_record [of "[0x20, 0x20, 0x20, 0x20]" sizes unset_id]
        probe_example_no_record [of "[0x58, 0x58, 0x58, 0x58]" sizes unset_id]
  by (simp add: NTFS_magic_def boot_sector_name)

text \<open>
  C4. If the signature matched, the geometry is computed, and the fetch of the volume record
  is unavailable or the record (at least 4 bytes) does not start with \<^verbatim>\<open>FILE\<close>, the
  probe returns a match (0): the identity record gets uuid from the boot sector's serial,
  usage and kind \<^verbatim>\<open>"ntfs"\<close>; label and version stay as they were, absent if
  they were absent.
\<close>

theorem probe_partial_match:
  assumes boot: "volume_id_get_buffer src off 0x200 = Some ns"
    and sig: "take 4 (drop 3 ns) = NTFS_magic"
    and geo: "ntfs_geometry ns = Ok g"
    and rec: "volume_id_get_buffer src (volume_record_off off g) (unat (mft_record_size g)) = None
              \<or> (\<exists>buf. volume_id_get_buffer src (volume_record_off off g)
                           (unat (mft_record_size g)) = Some buf
                        \<and> 4 \<le> length buf \<and> take 4 buf \<noteq> FILE_magic)"
  shows "volume_id_probe_ntfs X src vid off =
           Some ([(off, 0x200), (volume_record_off off g, unat (mft_record_size g))],
                 Ok (0, vid\<lparr>uuid := Some (of_nat (le_val (take 8 (drop 72 ns)))),
                           usage_id := Some VOLUME_ID_FILESYSTEM,
                           type := Some ''ntfs''\<rparr>))"
proof -
  note p = probe_signature [OF boot sig]
  from rec show ?thesis
  proof
    assume "volume_id_get_buffer src (volume_record_off off g) (unat (mft_record_size g)) = None"
    then show ?thesis
      by (simp add: p geo found_def volume_id_set_usage_def volume_id_set_uuid_def)
  next
    assume "\<exists>buf. volume_id_get_buffer src (volume_record_off off g)
                           (unat (mft_record_size g)) = Some buf
                        \<and> 4 \<le> length buf \<and> take 4 buf \<noteq> FILE_magic"
    then obtain buf where
      buf: "volume_id_get_buffer src (volume_record_off off g) (unat (mft_record_size g)) = Some buf"
      and bad: "4 \<le> length buf" "take 4 buf \<noteq> FILE_magic" by blast
    show ?thesis
      by (simp add: p geo buf probe_record_bad_magic [OF bad] found_def
            volume_id_set_usage_def volume_id_set_uuid_def)
  qed
qed

theorem probe_partial_match_witness:
  "volume_id_probe_ntfs sizes
     (source_of [((0, 512), boot_sector [0x4E, 0x54, 0x46, 0x53, 0x20, 0x20, 0x20, 0x20] 0x00 0x02 8
                     [4, 0, 0, 0, 0, 0, 0, 0] 0xF9 [1, 2, 3, 4, 5, 6, 7, 8])]) unset_id 0
   = Some ([(0, 0x200), (16768, 128)],
           Ok (0, unset_id\<lparr>uuid := Some 0x0807060504030201,
                     usage_id := Some VOLUME_ID_FILESYSTEM, type := Some ''ntfs''\<rparr>))
   \<and> volume_id_probe_ntfs sizes
     (source_of [((0, 512), boot_sector [0x4E, 0x54, 0x46, 0x53, 0x20, 0x20, 0x20, 0x20] 0x00 0x02 8
                     [4, 0, 0, 0, 0, 0, 0, 0] 0xF9 [1, 2, 3, 4, 5, 6, 7, 8]),
                 ((16768, 128), [0x42, 0x41, 0x41, 0x44] @ replicate 124 0)]) unset_id 0
   = Some ([(0, 0x200), (16768, 128)],
           Ok (0, unset_id\<lparr>uuid := Some 0x0807060504030201,
                     usage_id := Some VOLUME_ID_FILESYSTEM, type := Some ''ntfs''\<rparr>))"
  using probe_partial_match
    [of "source_of [((0, 512), boot_sector [0x4E, 0x54, 0x46, 0x53, 0x20, 0x20, 0x20, 0x20] 0x00 0x02 8
                     [4, 0, 0, 0, 0, 0, 0, 0] 0xF9 [1, 2, 3, 4, 5, 6, 7, 8])]" 0
        "boot_sector [0x4E, 0x54, 0x46, 0x53, 0x20, 0x20, 0x20, 0x20] 0x00 0x02 8
                     [4, 0, 0, 0, 0, 0, 0, 0] 0xF9 [1, 2, 3, 4, 5, 6, 7, 8]"
        "\<lparr>sector_size = 512, cluster_size = 4096, mft_cluster = 4, mft_off = 16384,
          mft_record_size = 128\<rparr>" sizes unset_id]
      probe_partial_match
    [of "source_of [((0, 512), boot_sector [0x4E, 0x54, 0x46, 0x53, 0x20, 0x20, 0x20, 0x20] 0x00 0x02 8
                     [4, 0, 0, 0, 0, 0, 0, 0] 0xF9 [1, 2, 3, 4, 5, 6, 7, 8]),
                 ((16768, 128), [0x42, 0x41, 0x41, 0x44] @ replicate 124 0)]" 0
        "boot_sector [0x4E, 0x54, 0x46, 0x53, 0x20, 0x20, 0x20, 0x20] 0x00 0x02 8
                     [4, 0, 0, 0, 0, 0, 0, 0] 0xF9 [1, 2, 3, 4, 5, 6, 7, 8]"
        "\<lparr>sector_size = 512, cluster_size = 4096, mft_cluster = 4, mft_off = 16384,
          mft_record_size = 128\<rparr>" sizes unset_id]
        geometry_example [of "[0x20, 0x20, 0x20, 0x20]" "[1, 2, 3, 4, 5, 6, 7, 8]"]
  by (simp add: get_buffer_source_of NTFS_magic_def FILE_magic_def volume_record_off_example)

text \<open>
  C5 (amended). The code has no zero check. For a boot sector with the signature whose
  geometry is computed with a zero sector size, cluster size or record size, the probe uses
  the quantities as they are and never returns no-match: every return lists the request of
  the volume record at \<open>off + mft_off + 3 * record_size\<close> with length \<open>record_size\<close>,
  and if that fetch is unavailable the probe returns a match.
\<close>

theorem probe_zero_geometry_used:
  assumes boot: "volume_id_get_buffer src off 0x200 = Some ns"
    and sig: "take 4 (drop 3 ns) = NTFS_magic"
    and geo: "ntfs_geometry ns = Ok g"
    and zero: "sector_size g = 0 \<or> cluster_size g = 0 \<or> mft_record_size g = 0"
  shows "(\<forall>reqs v. volume_id_probe_ntfs X src vid off \<noteq> Some (reqs, Ok (- 1, v)))
       \<and> (\<forall>reqs r. volume_id_probe_ntfs X src vid off = Some (reqs, r) \<longrightarrow>
              reqs = [(off, 0x200), (volume_record_off off g, unat (mft_record_size g))])
       \<and> (volume_id_get_buffer src (volume_record_off off g) (unat (mft_record_size g)) = None
            \<longrightarrow> volume_id_probe_ntfs X src vid off =
                  Some ([(off, 0x200), (volume_record_off off g, unat (mft_record_size g))],
                        Ok (0, vid\<lparr>uuid := Some (of_nat (le_val (take 8 (drop 72 ns)))),
                                  usage_id := Some VOLUME_ID_FILESYSTEM,
                                  type := Some ''ntfs''\<rparr>)))"
proof (cases "volume_id_get_buffer src (volume_record_off off g) (unat (mft_record_size g))")
  case None
  then show ?thesis
    by (simp add: probe_signature [OF boot sig] geo found_def volume_id_set_usage_def
          volume_id_set_uuid_def)
next
  case (Some buf)
  show ?thesis
  proof (cases "probe_record X buf (mft_record_size g)
                  (volume_id_set_uuid vid (take 8 (drop 72 ns)))")
    case None
    then show ?thesis by (simp add: probe_signature [OF boot sig] geo Some)
  next
    case r: (Some r)
    from probe_record_result [OF r] have "\<forall>v. r \<noteq> Ok (- 1, v)" by (cases r) auto
    then show ?thesis by (simp add: probe_signature [OF boot sig] geo Some r)
  qed
qed

theorem probe_zero_geometry_used_witness:
  "(\<forall>reqs v. volume_id_probe_ntfs sizes
         (source_of [((0, 512), boot_sector [0x4E, 0x54, 0x46, 0x53, 0x20, 0x20, 0x20, 0x20] 0 0 0
                                  [0, 0, 0, 0, 0, 0, 0, 0] 0 [1, 2, 3, 4, 5, 6, 7, 8])]) unset_id 0
        \<noteq> Some (reqs, Ok (- 1, v)))
   \<and> (\<exists>vid'. volume_id_probe_ntfs sizes
         (source_of [((0, 512), boot_sector [0x4E, 0x54, 0x46, 0x53, 0x20, 0x20, 0x20, 0x20] 0 0 0
                                  [0, 0, 0, 0, 0, 0, 0, 0] 0 [1, 2, 3, 4, 5, 6, 7, 8])]) unset_id 0
        = Some ([(0, 0x200), (0, 0)], Ok (0, vid')))"
proof -
  let ?ns = "boot_sector (NTFS_magic @ [0x20, 0x20, 0x20, 0x20]) 0 0 0 [0, 0, 0, 0, 0, 0, 0, 0] 0
                    [1, 2, 3, 4, 5, 6, 7, 8]"
  let ?src = "source_of [((0, 512), ?ns)]"
  let ?g = "\<lparr>sector_size = 0, cluster_size = 0, mft_cluster = 0, mft_off = 0,
      mft_record_size = 0\<rparr> :: geometry"
  have l: "length (NTFS_magic @ [0x20, 0x20, 0x20, 0x20]) = 8" by (simp add: NTFS_magic_def)
  have boot: "volume_id_get_buffer ?src 0 0x200 = Some ?ns"
    using l by (simp add: get_buffer_source_of)
  have sig: "take 4 (drop 3 ?ns) = NTFS_magic" using l by (simp add: NTFS_magic_def)
  have geo: "ntfs_geometry ?ns = Ok ?g" by (rule geometry_zero)
  have zero: "sector_size ?g = 0 \<or> cluster_size ?g = 0 \<or> mft_record_size ?g = 0" by simp
  have off: "volume_record_off 0 ?g = 0" by (simp add: volume_record_off_def)
  have none: "volume_id_get_buffer ?src (volume_record_off 0 ?g) (unat (mft_record_size ?g)) = None"
    by (simp add: off get_buffer_source_of)
  note t = probe_zero_geometry_used [OF boot sig geo zero, of sizes unset_id]
  from t have a: "\<forall>reqs v. volume_id_probe_ntfs sizes ?src unset_id 0 \<noteq> Some (reqs, Ok (- 1, v))"
    by (rule conjunct1)
  from t have "volume_id_get_buffer ?src (volume_record_off 0 ?g) (unat (mft_record_size ?g)) = None
            \<longrightarrow> volume_id_probe_ntfs sizes ?src unset_id 0 =
                  Some ([(0, 0x200), (volume_record_off 0 ?g, unat (mft_record_size ?g))],
                        Ok (0, unset_id\<lparr>uuid := Some (of_nat (le_val (take 8 (drop 72 ?ns)))),
                                  usage_id := Some VOLUME_ID_FILESYSTEM,
                                  type := Some ''ntfs''\<rparr>))"
    by (rule conjunct2 [THEN conjunct2])
  with none have "volume_id_probe_ntfs sizes ?src unset_id 0 =
                  Some ([(0, 0x200), (volume_record_off 0 ?g, unat (mft_record_size ?g))],
                        Ok (0, unset_id\<lparr>uuid := Some (of_nat (le_val (take 8 (drop 72 ?ns)))),
                                  usage_id := Some VOLUME_ID_FILESYSTEM,
                                  type := Some ''ntfs''\<rparr>))"
    by (rule rev_mp)
  then have b: "\<exists>vid'. volume_id_probe_ntfs sizes ?src unset_id 0
                  = Some ([(0, 0x200), (0, 0)], Ok (0, vid'))"
    by (simp only: off) simp
  from a b show ?thesis by (simp only: NTFS_magic_def append.simps) simp
qed

text \<open>
  C5 as stated fails: a boot sector with the signature in which sector size, cluster size
  and record size are all zero is not rejected; with the record fetch unavailable the
  probe returns a match.
\<close>

theorem probe_zero_geometry_counterexample:
  "ntfs_geometry (boot_sector [0x4E, 0x54, 0x46, 0x53, 0x20, 0x20, 0x20, 0x20] 0 0 0
                    [0, 0, 0, 0, 0, 0, 0, 0] 0 [1, 2, 3, 4, 5, 6, 7, 8])
     = Ok \<lparr>sector_size = 0, cluster_size = 0, mft_cluster = 0, mft_off = 0, mft_record_size = 0\<rparr>
   \<and> volume_id_probe_ntfs sizes
         (source_of [((0, 512), boot_sector [0x4E, 0x54, 0x46, 0x53, 0x20, 0x20, 0x20, 0x20] 0 0 0
                                  [0, 0, 0, 0, 0, 0, 0, 0] 0 [1, 2, 3, 4, 5, 6, 7, 8])]) unset_id 0
       = Some ([(0, 512), (0, 0)],
               Ok (0, unset_id\<lparr>uuid := Some 0x0807060504030201,
                     usage_id := Some VOLUME_ID_FILESYSTEM, type := Some ''ntfs''\<rparr>))"
proof -
  let ?ns = "boot_sector (NTFS_magic @ [0x20, 0x20, 0x20, 0x20]) 0 0 0 [0, 0, 0, 0, 0, 0, 0, 0] 0
                    [1, 2, 3, 4, 5, 6, 7, 8]"
  let ?src = "source_of [((0, 512), ?ns)]"
  have l: "length (NTFS_magic @ [0x20, 0x20, 0x20, 0x20]) = 8" by (simp add: NTFS_magic_def)
  have boot: "volume_id_get_buffer ?src 0 0x200 = Some ?ns"
    using l by (simp add: get_buffer_source_of)
  have sig: "take 4 (drop 3 ?ns) = NTFS_magic" using l by (simp add: NTFS_magic_def)
  have ser: "take 8 (drop 72 ?ns) = [1, 2, 3, 4, 5, 6, 7, 8]" using l by simp
  have "volume_id_probe_ntfs sizes ?src unset_id 0
       = Some ([(0, 512), (0, 0)],
               Ok (0, unset_id\<lparr>uuid := Some 0x0807060504030201,
                     usage_id := Some VOLUME_ID_FILESYSTEM, type := Some ''ntfs''\<rparr>))"
    by (simp add: probe_signature [OF boot sig] geometry_zero volume_record_off_def
          get_buffer_source_of ser found_def volume_id_set_usage_def volume_id_set_uuid_def)
  then show ?thesis using geometry_zero by (simp add: NTFS_magic_def)
qed




end
